theory Spec2Isabelle
  imports Main "HOL-Library.AList"
begin

section \<open>The BlueMap worker: serving map data from an object store\<close>

text \<open>
  The repository holds two versions of the worker's entry point. The older one (the
  \<^verbatim>\<open>index.ts\<close> at the end of \<^verbatim>\<open>src/unnamed/part_000\<close>) serves every path from the
  bucket and decides with \<^verbatim>\<open>shouldTryGz\<close>; the newer one (\<^verbatim>\<open>src/unnamed/part_001\<close>) serves
  only \<^verbatim>\<open>maps/*\<close>, strips that prefix from the key and has two debug endpoints. Both define
  \<^verbatim>\<open>getMimeType\<close>, \<^verbatim>\<open>r2Response\<close> and \<^verbatim>\<open>fetch\<close>; the embedding keeps the source's names
  and marks the version with the suffix \<open>_old\<close> or \<open>_new\<close>.

  A handler run is a pure function of the request, the environment bindings and the
  platform functions it calls. Its value is the list of calls it made to the bucket and
  to the network, in order, and the response it returned or the exception it raised.
  The bucket is a map from keys to objects that answers every \<^verbatim>\<open>get\<close> with the stored
  object or with \<^verbatim>\<open>null\<close>; a failing bucket is not part of the model. Strings are lists
  of 8-bit characters, which is what the ASCII comparisons of the source need.
\<close>

subsection \<open>String primitives of the host language\<close>

definition startsWith :: "string \<Rightarrow> string \<Rightarrow> bool" where
  "startsWith s p \<longleftrightarrow> take (length p) s = p"

definition endsWith :: "string \<Rightarrow> string \<Rightarrow> bool" where
  "endsWith s p \<longleftrightarrow> length p \<le> length s \<and> drop (length s - length p) s = p"

definition substring :: "string \<Rightarrow> nat \<Rightarrow> string" where
  "substring s n = drop n s"

text \<open>\<^verbatim>\<open>toLowerCase\<close>, on the ASCII letters.\<close>

definition toLowerChar :: "char \<Rightarrow> char" where
  "toLowerChar c =
     (case map_of (zip ''ABCDEFGHIJKLMNOPQRSTUVWXYZ'' ''abcdefghijklmnopqrstuvwxyz'') c of
        Some d \<Rightarrow> d
      | None \<Rightarrow> c)"

definition toLowerCase :: "string \<Rightarrow> string" where
  "toLowerCase s = map toLowerChar s"

text \<open>\<^verbatim>\<open>path.split(".").pop()\<close>: what follows the last dot, the whole string when it has none.\<close>

definition splitPop :: "string \<Rightarrow> string" where
  "splitPop s = rev (takeWhile (\<lambda>c. c \<noteq> CHR ''.'') (rev s))"

text \<open>\<^verbatim>\<open>s.replace(/\/+$/, "")\<close>: the string without its trailing slashes.\<close>

definition stripTrailingSlashes :: "string \<Rightarrow> string" where
  "stripTrailingSlashes s = rev (dropWhile (\<lambda>c. c = CHR ''/'') (rev s))"

text \<open>
  The regular expressions of the source are \<^verbatim>\<open>[^/]+\<close> followed by a literal that starts
  with a slash, anchored at the start or after the literal \<^verbatim>\<open>maps/\<close>: the segment is the
  longest slash-free prefix, it must be non-empty, and the literal must follow it.
\<close>

definition segmentThen :: "string \<Rightarrow> string \<Rightarrow> bool" where
  "segmentThen lit s \<longleftrightarrow>
     takeWhile (\<lambda>c. c \<noteq> CHR ''/'') s \<noteq> [] \<and>
     startsWith (dropWhile (\<lambda>c. c \<noteq> CHR ''/'') s) lit"

text \<open>A number inside a template literal: its decimal digits.\<close>

function showNat :: "nat \<Rightarrow> string" where
  "showNat n =
     (if n < 10 then [''0123456789'' ! n]
      else showNat (n div 10) @ [''0123456789'' ! (n mod 10)])"
  by pat_completeness auto
termination
  by (relation "measure (\<lambda>n. n)") auto

declare showNat.simps [simp del]

subsection \<open>Headers, bodies, responses\<close>

text \<open>
  A \<^verbatim>\<open>Headers\<close> object: names are case-insensitive, \<^verbatim>\<open>set\<close> replaces the value of a name
  that is present and adds the pair otherwise.
\<close>

type_synonym headers = "(string \<times> string) list"

definition headers_set :: "string \<Rightarrow> string \<Rightarrow> headers \<Rightarrow> headers" where
  "headers_set n v hs = AList.update (toLowerCase n) v hs"

definition headers_get :: "headers \<Rightarrow> string \<Rightarrow> string option" where
  "headers_get hs n = map_of hs (toLowerCase n)"

text \<open>The headers of an object literal \<^verbatim>\<open>{ name: value, ... }\<close>.\<close>

definition headers_of :: "(string \<times> string) list \<Rightarrow> headers" where
  "headers_of kvs = foldl (\<lambda>hs (n, v). headers_set n v hs) [] kvs"

record r2object =
  httpEtag :: string
  obody :: string

text \<open>
  The payload of the JSON documents that the debug endpoints of the newer version
  return (the elapsed time of the probe is left out).
\<close>

datatype debug_report =
    LiveOriginNotSet
  | LiveProbe string nat headers string
  | LiveProbeError string string
  | BucketListing bool nat "(string \<times> nat) list"

datatype body = BNull | BText string | BStream string | BJson debug_report

datatype encode_body = Automatic | Manual

record response =
  status :: nat
  hdrs :: headers
  body :: body
  encodeBody :: encode_body

text \<open>
  \<^verbatim>\<open>new Response(body, { status, headers })\<close>. A string body gets the default content type
  when the headers name none.
\<close>

definition newResponse :: "body \<Rightarrow> nat \<Rightarrow> headers \<Rightarrow> response" where
  "newResponse b st hs =
     \<lparr>status = st,
      hdrs = (case b of
                BText _ \<Rightarrow>
                  (if headers_get hs ''Content-Type'' = None
                   then headers_set ''Content-Type'' ''text/plain;charset=UTF-8'' hs else hs)
              | BJson _ \<Rightarrow>
                  (if headers_get hs ''Content-Type'' = None
                   then headers_set ''Content-Type'' ''text/plain;charset=UTF-8'' hs else hs)
              | _ \<Rightarrow> hs),
      body = b,
      encodeBody = Automatic\<rparr>"

subsection \<open>Requests, bindings, platform\<close>

record request =
  rmethod :: string
  pathname :: string
  searchParams :: "(string \<times> string) list"
  reqHeaders :: headers

text \<open>
  The bindings: \<open>BUCKET\<close> is \<^verbatim>\<open>env.BUCKET.get\<close>, \<open>BUCKET_list\<close> is \<^verbatim>\<open>env.BUCKET.list\<close> (the
  truncated flag and the keys with their sizes, for a prefix and a limit).
\<close>

record env =
  BUCKET :: "string \<rightharpoonup> r2object"
  BUCKET_list :: "string option \<Rightarrow> int option \<Rightarrow> bool \<times> (string \<times> nat) list"
  LIVE_SERVER_ORIGIN :: "string option"

record origin_response =
  pstatus :: nat
  pheaders :: headers
  pbody :: body

text \<open>
  What the runtime provides: \<^verbatim>\<open>decodeURIComponent\<close> (\<open>None\<close> when it throws a
  \<^verbatim>\<open>URIError\<close>), the global \<^verbatim>\<open>fetch\<close> to an origin for a url, a method and headers (\<open>Inl\<close>
  with the message when it throws), \<^verbatim>\<open>parseInt\<close> (\<open>None\<close> for \<^verbatim>\<open>NaN\<close>), and whether
  \<^verbatim>\<open>new Request(url, ...)\<close> accepts a url (it throws a \<^verbatim>\<open>TypeError\<close> otherwise).
\<close>

record platform =
  decodeURIComponent :: "string \<Rightarrow> string option"
  originFetch :: "string \<Rightarrow> string \<Rightarrow> headers \<Rightarrow> string + origin_response"
  parseInt :: "string \<Rightarrow> int option"
  urlValid :: "string \<Rightarrow> bool"

datatype error = URIError | TypeError

datatype event =
    BucketGet string
  | BucketList "string option" "int option"
  | OriginFetch string string headers

type_synonym outcome = "event list \<times> (error + response)"

text \<open>A string is truthy when it is defined and not empty.\<close>

definition truthy :: "string option \<Rightarrow> bool" where
  "truthy v = (case v of None \<Rightarrow> False | Some s \<Rightarrow> s \<noteq> [])"

definition bodyText :: "body \<Rightarrow> string" where
  "bodyText b = (case b of BText s \<Rightarrow> s | BStream s \<Rightarrow> s | _ \<Rightarrow> [])"

definition stripLeadingSlash :: "string \<Rightarrow> string" where
  "stripLeadingSlash p = (if startsWith p ''/'' then substring p 1 else p)"

definition preflightResponse :: response where
  "preflightResponse =
     newResponse BNull 200
       (headers_of
          [(''Access-Control-Allow-Origin'', ''*''),
           (''Access-Control-Allow-Methods'', ''GET, HEAD, OPTIONS''),
           (''Access-Control-Allow-Headers'', ''*''),
           (''Access-Control-Max-Age'', ''86400'')])"

definition methodNotAllowed :: response where
  "methodNotAllowed = newResponse (BText ''Method Not Allowed'') 405 []"

subsection \<open>The older version: \<^verbatim>\<open>index.ts\<close> of \<^verbatim>\<open>part_000\<close>\<close>

text \<open>
  \<^verbatim>\<open>MIME_TYPES\<close> is a plain object, so a lookup also finds what it inherits. The extension is
  in lower case when it is looked up, and of the inherited names only \<^verbatim>\<open>constructor\<close> and
  \<^verbatim>\<open>__proto__\<close> are: their values reach the header as the strings below.
\<close>

definition MIME_TYPES :: "(string \<times> string) list" where
  "MIME_TYPES =
     [(''html'', ''text/html; charset=utf-8''),
      (''htm'', ''text/html; charset=utf-8''),
      (''css'', ''text/css; charset=utf-8''),
      (''js'', ''text/javascript; charset=utf-8''),
      (''json'', ''application/json; charset=utf-8''),
      (''txt'', ''text/plain; charset=utf-8''),
      (''xml'', ''text/xml; charset=utf-8''),
      (''csv'', ''text/csv; charset=utf-8''),
      (''svg'', ''image/svg+xml''),
      (''png'', ''image/png''),
      (''jpg'', ''image/jpeg''),
      (''jpeg'', ''image/jpeg''),
      (''gif'', ''image/gif''),
      (''webp'', ''image/webp''),
      (''ico'', ''image/x-icon''),
      (''tif'', ''image/tiff''),
      (''tiff'', ''image/tiff''),
      (''ttf'', ''font/ttf''),
      (''woff'', ''font/woff''),
      (''woff2'', ''font/woff2''),
      (''mp3'', ''audio/mpeg''),
      (''wav'', ''audio/wav''),
      (''oga'', ''audio/ogg''),
      (''weba'', ''audio/webm''),
      (''mp4'', ''video/mp4''),
      (''mpeg'', ''video/mpeg''),
      (''webm'', ''video/webm''),
      (''prbm'', ''application/octet-stream''),
      (''constructor'', ''function Object() { [native code] }''),
      (''__proto__'', ''[object Object]'')]"

definition getMimeType_old :: "string \<Rightarrow> string" where
  "getMimeType_old path =
     (let ext = toLowerCase (splitPop path)
      in case map_of MIME_TYPES ext of
           Some t \<Rightarrow> t
         | None \<Rightarrow> ''application/octet-stream'')"

definition GZ_ONLY_EXTENSIONS :: "string list" where
  "GZ_ONLY_EXTENSIONS = [''.prbm'']"

definition GZ_ONLY_FILENAMES :: "string list" where
  "GZ_ONLY_FILENAMES = [''textures.json'']"

definition isTilePath :: "string \<Rightarrow> bool" where
  "isTilePath path \<longleftrightarrow> startsWith path ''maps/'' \<and> segmentThen ''/tiles/'' (drop 5 path)"

definition isLivePath :: "string \<Rightarrow> bool" where
  "isLivePath path \<longleftrightarrow> startsWith path ''maps/'' \<and> segmentThen ''/live/'' (drop 5 path)"

definition shouldTryGz :: "string \<Rightarrow> bool" where
  "shouldTryGz path =
     (if endsWith path ''.gz'' then False
      else if list_ex (endsWith path) GZ_ONLY_EXTENSIONS then True
      else if list_ex (endsWith path) GZ_ONLY_FILENAMES then True
      else False)"

definition r2Response_old ::
  "r2object \<Rightarrow> string \<Rightarrow> bool \<Rightarrow> nat \<Rightarrow> request option \<Rightarrow> response" where
  "r2Response_old object contentType gzipped cacheSeconds request =
     (let headers = headers_set ''Content-Type'' contentType [];
          headers = headers_set ''ETag'' (httpEtag object) headers;
          headers = headers_set ''Cache-Control'' (''public, max-age='' @ showNat cacheSeconds) headers;
          headers = headers_set ''Access-Control-Allow-Origin'' ''*'' headers;
          headers = (if gzipped then headers_set ''Content-Encoding'' ''gzip'' headers else headers)
      in case request of
           None \<Rightarrow> newResponse (BStream (obody object)) 200 headers
         | Some req \<Rightarrow>
             (let ifNoneMatch = headers_get (reqHeaders req) ''If-None-Match''
              in if truthy ifNoneMatch \<and> ifNoneMatch = Some (httpEtag object)
                 then newResponse BNull 304 headers
                 else newResponse (BStream (obody object)) 200 headers))"

definition corsOnly :: headers where
  "corsOnly = headers_of [(''Access-Control-Allow-Origin'', ''*'')]"

text \<open>The section \<^verbatim>\<open>Serve from R2\<close> of the older \<^verbatim>\<open>fetch\<close>.\<close>

definition serveFromR2_old :: "string \<Rightarrow> request \<Rightarrow> env \<Rightarrow> event list \<times> response" where
  "serveFromR2_old path request env =
     (let contentType = getMimeType_old path;
          isMapTile = isTilePath path
      in if shouldTryGz path then
           (let gzKey = path @ ''.gz''
            in case BUCKET env gzKey of
                 Some object \<Rightarrow>
                   ([BucketGet gzKey], r2Response_old object contentType True 86400 (Some request))
               | None \<Rightarrow>
                   (case BUCKET env path of
                      Some fallback \<Rightarrow>
                        ([BucketGet gzKey, BucketGet path],
                         r2Response_old fallback contentType False 86400 (Some request))
                    | None \<Rightarrow>
                        ([BucketGet gzKey, BucketGet path],
                         if isMapTile then newResponse BNull 204 corsOnly
                         else newResponse (BText ''Not Found'') 404 corsOnly)))
         else
           (case BUCKET env path of
              Some object \<Rightarrow>
                ([BucketGet path], r2Response_old object contentType False 86400 (Some request))
            | None \<Rightarrow>
                (if \<not> endsWith path ''.gz'' then
                   (case BUCKET env (path @ ''.gz'') of
                      Some gzObject \<Rightarrow>
                        ([BucketGet path, BucketGet (path @ ''.gz'')],
                         r2Response_old gzObject contentType True 86400 (Some request))
                    | None \<Rightarrow>
                        ([BucketGet path, BucketGet (path @ ''.gz'')],
                         if isMapTile then newResponse BNull 204 corsOnly
                         else newResponse (BText ''Not Found'') 404 corsOnly))
                 else
                   ([BucketGet path],
                    if isMapTile then newResponse BNull 204 corsOnly
                    else newResponse (BText ''Not Found'') 404 corsOnly))))"

text \<open>The key of the older version: the decoded path without its leading slash, the root as \<^verbatim>\<open>index.html\<close>.\<close>

definition r2Key_old :: "string \<Rightarrow> string" where
  "r2Key_old decoded =
     (let path = stripLeadingSlash decoded
      in if path = [] \<or> path = ''/'' then ''index.html'' else path)"

definition fetch_old :: "platform \<Rightarrow> request \<Rightarrow> env \<Rightarrow> outcome" where
  "fetch_old pf request env =
     (case decodeURIComponent pf (pathname request) of
        None \<Rightarrow> ([], Inl URIError)
      | Some decoded \<Rightarrow>
          (let path = r2Key_old decoded
           in if rmethod request = ''OPTIONS'' then ([], Inr preflightResponse)
              else if rmethod request \<noteq> ''GET'' \<and> rmethod request \<noteq> ''HEAD''
                then ([], Inr methodNotAllowed)
              else if isLivePath path \<and> truthy (LIVE_SERVER_ORIGIN env) then
                (let target = stripTrailingSlashes (the (LIVE_SERVER_ORIGIN env)) @ ''/'' @ path
                 in if \<not> urlValid pf target then ([], Inl TypeError)
                    else
                      ([OriginFetch target (rmethod request) (reqHeaders request)],
                       case originFetch pf target (rmethod request) (reqHeaders request) of
                         Inr proxyRes \<Rightarrow>
                           Inr \<lparr>status = pstatus proxyRes,
                                hdrs = headers_set ''Access-Control-Allow-Origin'' ''*''
                                         (pheaders proxyRes),
                                body = pbody proxyRes,
                                encodeBody = Automatic\<rparr>
                       | Inl err \<Rightarrow>
                           Inr (newResponse (BText ''Live server unavailable'') 502 [])))
              else
                (let (tr, res) = serveFromR2_old path request env in (tr, Inr res))))"

subsection \<open>The newer version: \<^verbatim>\<open>part_001\<close>\<close>

text \<open>
  The newer \<^verbatim>\<open>fetch\<close> writes its tests inline. Its live test is the regular expression of
  \<^verbatim>\<open>isLivePath\<close> above, on the path with the \<^verbatim>\<open>maps/\<close> prefix; its tile test is
  \<^verbatim>\<open>^[^/]+\/tiles\/\<close> on the key, which has lost the prefix.
\<close>

definition getMimeType_new :: "string \<Rightarrow> string" where
  "getMimeType_new path =
     (if endsWith path ''.prbm'' \<or> endsWith path ''.prbm.gz'' then ''application/octet-stream''
      else if endsWith path ''.png'' then ''image/png''
      else if endsWith path ''.json'' \<or> endsWith path ''.json.gz'' then ''application/json''
      else ''application/octet-stream'')"

definition r2Response_new :: "r2object \<Rightarrow> string \<Rightarrow> request \<Rightarrow> response" where
  "r2Response_new object contentType request =
     (let headers = headers_set ''Content-Type'' contentType [];
          headers = headers_set ''ETag'' (httpEtag object) headers;
          headers = headers_set ''Cache-Control'' ''public, max-age=86400'' headers;
          headers = headers_set ''Access-Control-Allow-Origin'' ''*'' headers;
          ifNoneMatch = headers_get (reqHeaders request) ''If-None-Match''
      in if truthy ifNoneMatch \<and> ifNoneMatch = Some (httpEtag object)
         then newResponse BNull 304 headers
         else newResponse (BStream (obody object)) 200 headers)"

definition compressedR2Response :: "r2object \<Rightarrow> string \<Rightarrow> request \<Rightarrow> response" where
  "compressedR2Response object contentType request =
     (let headers = headers_set ''Content-Type'' contentType [];
          headers = headers_set ''Content-Encoding'' ''gzip'' headers;
          headers = headers_set ''ETag'' (httpEtag object) headers;
          headers = headers_set ''Cache-Control'' ''public, max-age=86400'' headers;
          headers = headers_set ''Access-Control-Allow-Origin'' ''*'' headers;
          ifNoneMatch = headers_get (reqHeaders request) ''If-None-Match''
      in if truthy ifNoneMatch \<and> ifNoneMatch = Some (httpEtag object)
         then newResponse BNull 304 headers
         else (newResponse (BStream (obody object)) 200 headers)\<lparr>encodeBody := Manual\<rparr>)"

definition emptyResponse :: "nat \<Rightarrow> response" where
  "emptyResponse st = newResponse BNull st corsOnly"

definition jsonHeaders :: headers where
  "jsonHeaders = headers_of [(''Content-Type'', ''application/json'')]"

definition probeHeaders :: "string \<Rightarrow> headers" where
  "probeHeaders accept =
     headers_of [(''Accept'', accept), (''User-Agent'', ''bluemap-cloudflare-worker'')]"

text \<open>The endpoint \<^verbatim>\<open>/debug/live\<close>.\<close>

definition debugLive :: "platform \<Rightarrow> env \<Rightarrow> outcome" where
  "debugLive pf env =
     (if \<not> truthy (LIVE_SERVER_ORIGIN env)
      then ([], Inr (newResponse (BJson LiveOriginNotSet) 500 jsonHeaders))
      else
        (let origin = stripTrailingSlashes (the (LIVE_SERVER_ORIGIN env));
             testUrl = origin @ ''/maps/world/live/players.json''
         in ([OriginFetch testUrl ''GET'' (probeHeaders ''*/*'')],
             case originFetch pf testUrl ''GET'' (probeHeaders ''*/*'') of
               Inr res \<Rightarrow>
                 Inr (newResponse
                        (BJson (LiveProbe testUrl (pstatus res) (pheaders res)
                                  (take 2000 (bodyText (pbody res)))))
                        200 jsonHeaders)
             | Inl err \<Rightarrow>
                 Inr (newResponse (BJson (LiveProbeError testUrl err)) 502 jsonHeaders))))"

text \<open>The endpoint \<^verbatim>\<open>/debug\<close>.\<close>

definition debugList :: "platform \<Rightarrow> request \<Rightarrow> env \<Rightarrow> outcome" where
  "debugList pf request env =
     (let prefix = map_of (searchParams request) ''prefix'';
          max = parseInt pf (case map_of (searchParams request) ''max'' of
                               Some m \<Rightarrow> m
                             | None \<Rightarrow> ''50'');
          listed = BUCKET_list env prefix max;
          keys = snd listed
      in ([BucketList prefix max],
          Inr (newResponse (BJson (BucketListing (fst listed) (length keys) keys))
                 200 jsonHeaders)))"

text \<open>
  The newer \<^verbatim>\<open>fetch\<close> from \<^verbatim>\<open>Try exact key from R2\<close> to its end: the exact key, then the
  key with \<^verbatim>\<open>.gz\<close> unless it has that suffix, then the answer for a miss.
\<close>

definition exactKey_new ::
  "string \<Rightarrow> string \<Rightarrow> bool \<Rightarrow> request \<Rightarrow> env \<Rightarrow> event list \<times> response" where
  "exactKey_new r2Key contentType isTile request env =
     (case BUCKET env r2Key of
        Some object \<Rightarrow> ([BucketGet r2Key], r2Response_new object contentType request)
      | None \<Rightarrow>
          (if \<not> endsWith r2Key ''.gz'' then
             (case BUCKET env (r2Key @ ''.gz'') of
                Some gzObject \<Rightarrow>
                  ([BucketGet r2Key, BucketGet (r2Key @ ''.gz'')],
                   compressedR2Response gzObject contentType request)
              | None \<Rightarrow>
                  ([BucketGet r2Key, BucketGet (r2Key @ ''.gz'')],
                   if isTile then emptyResponse 204 else emptyResponse 404))
           else
             ([BucketGet r2Key],
              if isTile then emptyResponse 204 else emptyResponse 404)))"

text \<open>
  The newer \<^verbatim>\<open>fetch\<close> from the key on. The first block returns on a hit and otherwise
  falls through to the code above.
\<close>

definition serveFromR2_new :: "string \<Rightarrow> request \<Rightarrow> env \<Rightarrow> event list \<times> response" where
  "serveFromR2_new r2Key request env =
     (let contentType = getMimeType_new r2Key;
          isTile = segmentThen ''/tiles/'' r2Key
      in if endsWith r2Key ''.prbm'' \<or> endsWith r2Key ''textures.json''
            \<or> endsWith r2Key ''settings.json''
         then
           (case BUCKET env (r2Key @ ''.gz'') of
              Some gzObject \<Rightarrow>
                ([BucketGet (r2Key @ ''.gz'')], compressedR2Response gzObject contentType request)
            | None \<Rightarrow>
                (let (tr, res) = exactKey_new r2Key contentType isTile request env
                 in (BucketGet (r2Key @ ''.gz'') # tr, res)))
         else exactKey_new r2Key contentType isTile request env)"

definition fetch_new :: "platform \<Rightarrow> request \<Rightarrow> env \<Rightarrow> outcome" where
  "fetch_new pf request env =
     (if pathname request = ''/debug/live'' then debugLive pf env
      else if pathname request = ''/debug'' then debugList pf request env
      else if rmethod request = ''OPTIONS'' then ([], Inr preflightResponse)
      else if rmethod request \<noteq> ''GET'' \<and> rmethod request \<noteq> ''HEAD''
        then ([], Inr methodNotAllowed)
      else
        (case decodeURIComponent pf (pathname request) of
           None \<Rightarrow> ([], Inl URIError)
         | Some decoded \<Rightarrow>
             (let path = stripLeadingSlash decoded
              in if \<not> startsWith path ''maps/'' then ([], Inr (emptyResponse 404))
                 else if truthy (LIVE_SERVER_ORIGIN env) \<and> isLivePath path then
                   (let origin = stripTrailingSlashes (the (LIVE_SERVER_ORIGIN env));
                        proxyUrl = origin @ ''/'' @ path;
                        accept = (case headers_get (reqHeaders request) ''Accept'' of
                                    Some a \<Rightarrow> a
                                  | None \<Rightarrow> ''*/*'')
                    in ([OriginFetch proxyUrl (rmethod request) (probeHeaders accept)],
                        case originFetch pf proxyUrl (rmethod request) (probeHeaders accept) of
                          Inr proxyResponse \<Rightarrow>
                            (let responseHeaders =
                                   headers_set ''Access-Control-Allow-Origin'' ''*''
                                     (pheaders proxyResponse);
                                 responseHeaders =
                                   headers_set ''Cache-Control'' ''public, max-age=5''
                                     responseHeaders
                             in Inr \<lparr>status = pstatus proxyResponse,
                                     hdrs = responseHeaders,
                                     body = pbody proxyResponse,
                                     encodeBody = Automatic\<rparr>)
                        | Inl err \<Rightarrow> Inr (emptyResponse 502)))
                 else
                   (let r2Key = substring path (length ''maps/'');
                        (tr, res) = serveFromR2_new r2Key request env
                    in (tr, Inr res)))))"

subsection \<open>Reading a run\<close>

text \<open>The keys looked up in the bucket, and the calls to an origin, in the order of the run.\<close>

definition probes :: "event list \<Rightarrow> string list" where
  "probes tr = concat (map (\<lambda>e. case e of BucketGet k \<Rightarrow> [k] | _ \<Rightarrow> []) tr)"

definition networkCalls :: "event list \<Rightarrow> event list" where
  "networkCalls tr = filter (\<lambda>e. case e of OriginFetch u m h \<Rightarrow> True | _ \<Rightarrow> False) tr"

text \<open>
  The guard of both versions for a conditional request:
  \<^verbatim>\<open>ifNoneMatch && ifNoneMatch === object.httpEtag\<close>.
\<close>

definition validatorMatches :: "request \<Rightarrow> r2object \<Rightarrow> bool" where
  "validatorMatches request object \<longleftrightarrow>
     truthy (headers_get (reqHeaders request) ''If-None-Match'') \<and>
     headers_get (reqHeaders request) ''If-None-Match'' = Some (httpEtag object)"

definition readMethod :: "request \<Rightarrow> bool" where
  "readMethod request \<longleftrightarrow> rmethod request = ''GET'' \<or> rmethod request = ''HEAD''"

text \<open>
  The requests that reach the bucket lookup, and the key they reach it with. In the older
  version: a \<^verbatim>\<open>GET\<close> or \<^verbatim>\<open>HEAD\<close> whose path decodes, unless it is a live path while an
  origin is configured. In the newer version the path must also start with \<^verbatim>\<open>maps/\<close>, which
  the key loses, and must not be one of the two debug endpoints.
\<close>

definition routesToStore_old :: "platform \<Rightarrow> request \<Rightarrow> env \<Rightarrow> string \<Rightarrow> bool" where
  "routesToStore_old pf request env key \<longleftrightarrow>
     readMethod request \<and>
     (case decodeURIComponent pf (pathname request) of
        None \<Rightarrow> False
      | Some decoded \<Rightarrow> r2Key_old decoded = key) \<and>
     \<not> (isLivePath key \<and> truthy (LIVE_SERVER_ORIGIN env))"

definition routesToStore_new :: "platform \<Rightarrow> request \<Rightarrow> env \<Rightarrow> string \<Rightarrow> bool" where
  "routesToStore_new pf request env key \<longleftrightarrow>
     pathname request \<noteq> ''/debug/live'' \<and> pathname request \<noteq> ''/debug'' \<and>
     readMethod request \<and>
     (case decodeURIComponent pf (pathname request) of
        None \<Rightarrow> False
      | Some decoded \<Rightarrow> stripLeadingSlash decoded = ''maps/'' @ key) \<and>
     \<not> (truthy (LIVE_SERVER_ORIGIN env) \<and> isLivePath (''maps/'' @ key))"

text \<open>
  The requests for a live path: a \<^verbatim>\<open>GET\<close> or \<^verbatim>\<open>HEAD\<close> (in the newer version not a debug
  endpoint) whose decoded path, without its leading slash, is \<open>path\<close> and matches
  \<^verbatim>\<open>^maps\/[^/]+\/live\/\<close>.
\<close>

definition liveRequest_old :: "platform \<Rightarrow> request \<Rightarrow> string \<Rightarrow> bool" where
  "liveRequest_old pf request path \<longleftrightarrow>
     readMethod request \<and>
     (case decodeURIComponent pf (pathname request) of
        None \<Rightarrow> False
      | Some decoded \<Rightarrow> r2Key_old decoded = path) \<and>
     isLivePath path"

definition liveRequest_new :: "platform \<Rightarrow> request \<Rightarrow> string \<Rightarrow> bool" where
  "liveRequest_new pf request path \<longleftrightarrow>
     pathname request \<noteq> ''/debug/live'' \<and> pathname request \<noteq> ''/debug'' \<and>
     readMethod request \<and>
     (case decodeURIComponent pf (pathname request) of
        None \<Rightarrow> False
      | Some decoded \<Rightarrow> stripLeadingSlash decoded = path) \<and>
     isLivePath path"

subsection \<open>Concrete runs\<close>

text \<open>
  A platform whose decoder leaves the path as it is and whose origin cannot be reached.
  Of \<^verbatim>\<open>parseInt\<close> it has the value at the default limit of the listing.
\<close>

definition plainPlatform :: platform where
  "plainPlatform =
     \<lparr>decodeURIComponent = Some,
      originFetch = (\<lambda>url method hs. Inl ''connection refused''),
      parseInt = (\<lambda>s. if s = ''50'' then Some 50 else None),
      urlValid = (\<lambda>url. True)\<rparr>"

text \<open>A platform whose origin answers every request with a document it forbids to cache.\<close>

definition originAnswer :: origin_response where
  "originAnswer =
     \<lparr>pstatus = 200,
      pheaders = [(''content-type'', ''application/json''), (''cache-control'', ''no-store'')],
      pbody = BStream ''{players:[]}''\<rparr>"

definition livePlatform :: platform where
  "livePlatform =
     \<lparr>decodeURIComponent = Some,
      originFetch = (\<lambda>url method hs. Inr originAnswer),
      parseInt = (\<lambda>s. if s = ''50'' then Some 50 else None),
      urlValid = (\<lambda>url. True)\<rparr>"

definition bucketEnv :: "(string \<rightharpoonup> r2object) \<Rightarrow> string option \<Rightarrow> env" where
  "bucketEnv store origin =
     \<lparr>BUCKET = store, BUCKET_list = (\<lambda>prefix limit. (False, [])), LIVE_SERVER_ORIGIN = origin\<rparr>"

definition req :: "string \<Rightarrow> string \<Rightarrow> headers \<Rightarrow> request" where
  "req method path hs = \<lparr>rmethod = method, pathname = path, searchParams = [], reqHeaders = hs\<rparr>"

definition stored :: "string \<Rightarrow> string \<Rightarrow> r2object" where
  "stored etag bytes = \<lparr>httpEtag = etag, obody = bytes\<rparr>"

section \<open>Facts about the primitives\<close>

lemma endsWith_iff: "endsWith s p \<longleftrightarrow> (\<exists>t. s = t @ p)"
proof
  assume "endsWith s p"
  then have "length p \<le> length s" and "drop (length s - length p) s = p"
    by (simp_all add: endsWith_def)
  then have "s = take (length s - length p) s @ p"
    by (metis append_take_drop_id)
  then show "\<exists>t. s = t @ p" ..
next
  assume "\<exists>t. s = t @ p"
  then show "endsWith s p" by (auto simp: endsWith_def)
qed

lemma endsWith_append [simp]: "endsWith (t @ p) p"
  by (auto simp: endsWith_iff)

lemma endsWith_last: "endsWith s p \<Longrightarrow> p \<noteq> [] \<Longrightarrow> last s = last p"
  by (auto simp: endsWith_iff)

lemma endsWith_trans: "endsWith s p \<Longrightarrow> endsWith p q \<Longrightarrow> endsWith s q"
  by (auto simp: endsWith_iff)

lemma startsWith_append [simp]: "startsWith (p @ t) p"
  by (simp add: startsWith_def)

lemma stripLeadingSlash_slash [simp]: "stripLeadingSlash (CHR ''/'' # p) = p"
  by (simp add: stripLeadingSlash_def startsWith_def substring_def)

lemma lower_names [simp]:
  "toLowerCase ''Content-Type'' = ''content-type''"
  "toLowerCase ''Content-Encoding'' = ''content-encoding''"
  "toLowerCase ''ETag'' = ''etag''"
  "toLowerCase ''Cache-Control'' = ''cache-control''"
  "toLowerCase ''Access-Control-Allow-Origin'' = ''access-control-allow-origin''"
  "toLowerCase ''Access-Control-Allow-Methods'' = ''access-control-allow-methods''"
  "toLowerCase ''Access-Control-Allow-Headers'' = ''access-control-allow-headers''"
  "toLowerCase ''Access-Control-Max-Age'' = ''access-control-max-age''"
  "toLowerCase ''If-None-Match'' = ''if-none-match''"
  "toLowerCase ''Accept'' = ''accept''"
  "toLowerCase ''User-Agent'' = ''user-agent''"
  by (simp_all add: toLowerCase_def toLowerChar_def)

lemma headers_get_set:
  "headers_get (headers_set n v hs) m =
     (if toLowerCase m = toLowerCase n then Some v else headers_get hs m)"
  by (simp add: headers_get_def headers_set_def update_conv')

lemma showNat_86400 [simp]: "showNat 86400 = ''86400''"
  by (simp add: showNat.simps)

lemma gz_not_compressed_first:
  assumes "endsWith k ''.gz''"
  shows "\<not> endsWith k ''.prbm''" "\<not> endsWith k ''textures.json''" "\<not> endsWith k ''settings.json''"
  using endsWith_last [OF assms] by (auto dest: endsWith_last)

lemma segment_tiles_not_live: "segmentThen ''/tiles/'' s \<Longrightarrow> \<not> segmentThen ''/live/'' s"
  by (auto simp: segmentThen_def startsWith_def dest!: arg_cong [where f = "\<lambda>xs. xs ! 1"])

lemma splitPop_ext:
  assumes "CHR ''.'' \<notin> set e"
  shows "splitPop (t @ CHR ''.'' # e) = e"
proof -
  have "takeWhile (\<lambda>c. c \<noteq> CHR ''.'') (rev e @ CHR ''.'' # rev t)
          = rev e @ takeWhile (\<lambda>c. c \<noteq> CHR ''.'') (CHR ''.'' # rev t)"
    by (rule takeWhile_append2) (use assms in auto)
  then show ?thesis by (simp add: splitPop_def)
qed

lemma getMimeType_old_prbm:
  assumes "endsWith k ''.prbm''"
  shows "getMimeType_old k = ''application/octet-stream''"
proof -
  from assms obtain t where "k = t @ CHR ''.'' # ''prbm''" by (auto simp: endsWith_iff)
  then have "splitPop k = ''prbm''" by (simp add: splitPop_ext)
  then show ?thesis
    by (simp add: getMimeType_old_def toLowerCase_def toLowerChar_def MIME_TYPES_def)
qed

lemma getMimeType_old_json:
  assumes "endsWith k ''.json''"
  shows "getMimeType_old k = ''application/json; charset=utf-8''"
proof -
  from assms obtain t where "k = t @ CHR ''.'' # ''json''" by (auto simp: endsWith_iff)
  then have "splitPop k = ''json''" by (simp add: splitPop_ext)
  then show ?thesis
    by (simp add: getMimeType_old_def toLowerCase_def toLowerChar_def MIME_TYPES_def)
qed

lemma getMimeType_old_gz:
  assumes "endsWith k ''.gz''"
  shows "getMimeType_old k = ''application/octet-stream''"
proof -
  from assms obtain t where "k = t @ CHR ''.'' # ''gz''" by (auto simp: endsWith_iff)
  then have "splitPop k = ''gz''" by (simp add: splitPop_ext)
  then show ?thesis
    by (simp add: getMimeType_old_def toLowerCase_def toLowerChar_def MIME_TYPES_def)
qed

lemma config_json:
  assumes "endsWith k ''textures.json'' \<or> endsWith k ''settings.json''"
  shows "endsWith k ''.json''"
proof -
  from assms obtain t where "k = t @ ''textures.json'' \<or> k = t @ ''settings.json''"
    by (auto simp: endsWith_iff)
  then have "k = (t @ ''textures'') @ ''.json'' \<or> k = (t @ ''settings'') @ ''.json''"
    by simp
  then show ?thesis unfolding endsWith_iff by blast
qed

lemma getMimeType_new_config:
  assumes "endsWith k ''textures.json'' \<or> endsWith k ''settings.json''"
  shows "getMimeType_new k = ''application/json''"
proof -
  have j: "endsWith k ''.json''" using assms by (rule config_json)
  have "\<not> endsWith k ''.prbm''" "\<not> endsWith k ''.prbm.gz''" "\<not> endsWith k ''.png''"
    using endsWith_last [OF j] by (auto dest: endsWith_last)
  with j show ?thesis by (simp add: getMimeType_new_def)
qed

lemma getMimeType_new_prbm: "endsWith k ''.prbm'' \<Longrightarrow> getMimeType_new k = ''application/octet-stream''"
  by (simp add: getMimeType_new_def)

lemma getMimeType_new_json_gz:
  assumes "endsWith k ''.json.gz''"
  shows "getMimeType_new k = ''application/json''"
proof -
  have "\<not> endsWith k ''.prbm''" "\<not> endsWith k ''.png''"
    using endsWith_last [OF assms] by (auto dest: endsWith_last)
  moreover have "\<not> endsWith k ''.prbm.gz''"
  proof
    assume "endsWith k ''.prbm.gz''"
    then obtain t where t: "k = t @ ''.prbm.gz''" by (auto simp: endsWith_iff)
    from assms obtain u where u: "k = u @ ''.json.gz''" by (auto simp: endsWith_iff)
    from t u have "rev (t @ ''.prbm.gz'') ! 3 = rev (u @ ''.json.gz'') ! 3" by simp
    then show False by simp
  qed
  ultimately show ?thesis using assms by (simp add: getMimeType_new_def)
qed

section \<open>How a request reaches the bucket, and what a found object becomes\<close>

lemma get_not_options: "readMethod request \<Longrightarrow> rmethod request \<noteq> ''OPTIONS''"
  by (auto simp: readMethod_def)

lemma fetch_old_store:
  assumes "routesToStore_old pf request env key"
  shows "fetch_old pf request env =
           (fst (serveFromR2_old key request env), Inr (snd (serveFromR2_old key request env)))"
proof -
  from assms obtain decoded where d: "decodeURIComponent pf (pathname request) = Some decoded"
    and k: "r2Key_old decoded = key"
    by (auto simp: routesToStore_old_def split: option.splits)
  from assms have m: "readMethod request" and l: "\<not> (isLivePath key \<and> truthy (LIVE_SERVER_ORIGIN env))"
    by (simp_all add: routesToStore_old_def)
  from m have "rmethod request \<noteq> ''OPTIONS''" by (rule get_not_options)
  moreover from m have "\<not> (rmethod request \<noteq> ''GET'' \<and> rmethod request \<noteq> ''HEAD'')"
    by (auto simp: readMethod_def)
  ultimately show ?thesis using d k l
    by (auto simp add: fetch_old_def split_beta)
qed

lemma fetch_new_store:
  assumes "routesToStore_new pf request env key"
  shows "fetch_new pf request env =
           (fst (serveFromR2_new key request env), Inr (snd (serveFromR2_new key request env)))"
proof -
  from assms obtain decoded where d: "decodeURIComponent pf (pathname request) = Some decoded"
    and k: "stripLeadingSlash decoded = ''maps/'' @ key"
    by (auto simp: routesToStore_new_def split: option.splits)
  from assms have m: "readMethod request"
    and l: "\<not> (truthy (LIVE_SERVER_ORIGIN env) \<and> isLivePath (''maps/'' @ key))"
    and p: "pathname request \<noteq> ''/debug/live''" "pathname request \<noteq> ''/debug''"
    by (simp_all add: routesToStore_new_def)
  from m have "rmethod request \<noteq> ''OPTIONS''" by (rule get_not_options)
  moreover from m have "\<not> (rmethod request \<noteq> ''GET'' \<and> rmethod request \<noteq> ''HEAD'')"
    by (auto simp: readMethod_def)
  moreover have "startsWith (''maps/'' @ key) ''maps/''" by (simp add: startsWith_def)
  ultimately show ?thesis using d k l p
    by (auto simp add: fetch_new_def split_beta substring_def)
qed

lemma r2Response_old_eq:
  "r2Response_old object contentType gzipped 86400 (Some request) =
     newResponse (if validatorMatches request object then BNull else BStream (obody object))
       (if validatorMatches request object then 304 else 200)
       ([(''content-type'', contentType), (''etag'', httpEtag object),
         (''cache-control'', ''public, max-age=86400''),
         (''access-control-allow-origin'', ''*'')]
        @ (if gzipped then [(''content-encoding'', ''gzip'')] else []))"
  by (auto simp: r2Response_old_def validatorMatches_def headers_set_def Let_def)

lemma r2Response_new_eq:
  "r2Response_new object contentType request =
     newResponse (if validatorMatches request object then BNull else BStream (obody object))
       (if validatorMatches request object then 304 else 200)
       [(''content-type'', contentType), (''etag'', httpEtag object),
        (''cache-control'', ''public, max-age=86400''),
        (''access-control-allow-origin'', ''*'')]"
  by (auto simp: r2Response_new_def validatorMatches_def headers_set_def Let_def)

lemma compressedR2Response_eq:
  "compressedR2Response object contentType request =
     (newResponse (if validatorMatches request object then BNull else BStream (obody object))
       (if validatorMatches request object then 304 else 200)
       [(''content-type'', contentType), (''content-encoding'', ''gzip''),
        (''etag'', httpEtag object),
        (''cache-control'', ''public, max-age=86400''),
        (''access-control-allow-origin'', ''*'')])
     \<lparr>encodeBody := (if validatorMatches request object then Automatic else Manual)\<rparr>"
  by (auto simp: compressedR2Response_def validatorMatches_def headers_set_def Let_def newResponse_def)

lemma corsOnly_eq [simp]: "corsOnly = [(''access-control-allow-origin'', ''*'')]"
  by (simp add: corsOnly_def headers_of_def headers_set_def)

lemma newResponse_null [simp]:
  "newResponse BNull st hs = \<lparr>status = st, hdrs = hs, body = BNull, encodeBody = Automatic\<rparr>"
  by (simp add: newResponse_def)

lemma newResponse_stream [simp]:
  "newResponse (BStream b) st hs = \<lparr>status = st, hdrs = hs, body = BStream b, encodeBody = Automatic\<rparr>"
  by (simp add: newResponse_def)

lemma serve_old_gz_only:
  assumes "\<not> endsWith k ''.gz''" "BUCKET env (k @ ''.gz'') = Some object" "BUCKET env k = None"
  shows "snd (serveFromR2_old k request env)
           = r2Response_old object (getMimeType_old k) True 86400 (Some request)"
  using assms by (simp add: serveFromR2_old_def Let_def)

lemma serve_new_gz_only:
  assumes "\<not> endsWith k ''.gz''" "BUCKET env (k @ ''.gz'') = Some object" "BUCKET env k = None"
  shows "snd (serveFromR2_new k request env)
           = compressedR2Response object (getMimeType_new k) request"
  using assms by (simp add: serveFromR2_new_def exactKey_new_def Let_def split_beta)

lemma compressed_first_not_gz:
  assumes "endsWith k ''.prbm'' \<or> endsWith k ''textures.json'' \<or> endsWith k ''settings.json''"
  shows "\<not> endsWith k ''.gz''"
  using assms gz_not_compressed_first by blast

lemma getMimeType_old_compressed_first:
  assumes "endsWith key ''.prbm'' \<or> endsWith key ''textures.json'' \<or> endsWith key ''settings.json''"
  shows "getMimeType_old key =
           (if endsWith key ''.prbm'' then ''application/octet-stream''
            else ''application/json; charset=utf-8'')"
  using assms getMimeType_old_prbm getMimeType_old_json config_json by auto

lemma getMimeType_new_compressed_first:
  assumes "endsWith key ''.prbm'' \<or> endsWith key ''textures.json'' \<or> endsWith key ''settings.json''"
  shows "getMimeType_new key =
           (if endsWith key ''.prbm'' then ''application/octet-stream''
            else ''application/json'')"
  using assms getMimeType_new_prbm getMimeType_new_config by auto

text \<open>The unfolding that evaluates a concrete run.\<close>

lemmas run_simps =
  req_def plainPlatform_def livePlatform_def originAnswer_def bucketEnv_def stored_def
  routesToStore_old_def routesToStore_new_def liveRequest_old_def liveRequest_new_def
  readMethod_def validatorMatches_def truthy_def
  r2Key_old_def stripLeadingSlash_def startsWith_def endsWith_def substring_def
  isLivePath_def isTilePath_def segmentThen_def headers_get_def

section \<open>The lookups of a run\<close>

lemma shouldTryGz_iff:
  "shouldTryGz k \<longleftrightarrow> endsWith k ''.prbm'' \<or> endsWith k ''textures.json''"
  using gz_not_compressed_first [of k]
  by (auto simp: shouldTryGz_def GZ_ONLY_EXTENSIONS_def GZ_ONLY_FILENAMES_def)

lemma newResponse_text [simp]:
  "newResponse (BText t) st [(''access-control-allow-origin'', ''*'')] =
     \<lparr>status = st,
      hdrs = [(''access-control-allow-origin'', ''*''),
              (''content-type'', ''text/plain;charset=UTF-8'')],
      body = BText t, encodeBody = Automatic\<rparr>"
  by (simp add: newResponse_def headers_get_def headers_set_def)

lemma serve_old_miss:
  assumes "BUCKET env k = None" "\<not> endsWith k ''.gz'' \<longrightarrow> BUCKET env (k @ ''.gz'') = None"
  shows "snd (serveFromR2_old k request env) =
           (if isTilePath k then newResponse BNull 204 corsOnly
            else newResponse (BText ''Not Found'') 404 corsOnly)"
  using assms gz_not_compressed_first [of k]
  by (auto simp: serveFromR2_old_def shouldTryGz_iff Let_def)

lemma serve_new_miss:
  assumes "BUCKET env k = None" "\<not> endsWith k ''.gz'' \<longrightarrow> BUCKET env (k @ ''.gz'') = None"
  shows "snd (serveFromR2_new k request env) =
           emptyResponse (if segmentThen ''/tiles/'' k then 204 else 404)"
  using assms gz_not_compressed_first [of k]
  by (auto simp: serveFromR2_new_def exactKey_new_def Let_def split_beta)

lemma serve_old_no_network: "networkCalls (fst (serveFromR2_old k request env)) = []"
  by (simp add: serveFromR2_old_def networkCalls_def Let_def split: option.splits)

lemma serve_new_no_network: "networkCalls (fst (serveFromR2_new k request env)) = []"
  by (simp add: serveFromR2_new_def exactKey_new_def networkCalls_def Let_def split_beta
           split: option.splits)

lemma serve_old_probes: "probes (fst (serveFromR2_old k request env)) \<noteq> []"
  by (simp add: serveFromR2_old_def probes_def Let_def split: option.splits)

lemma serve_new_probes: "probes (fst (serveFromR2_new k request env)) \<noteq> []"
  by (simp add: serveFromR2_new_def exactKey_new_def probes_def Let_def split_beta
           split: option.splits)

lemma isLivePath_maps:
  assumes "isLivePath path"
  shows "path = ''maps/'' @ drop 5 path"
proof -
  have l: "length ''maps/'' = 5" by simp
  from assms have "take 5 path = ''maps/''"
    unfolding isLivePath_def startsWith_def l by (rule conjunct1)
  then have "''maps/'' @ drop 5 path = take 5 path @ drop 5 path" by (simp only:)
  then show ?thesis by (simp only: append_take_drop_id)
qed

lemma isLivePath_not_tile:
  assumes "isLivePath path"
  shows "\<not> isTilePath path" "\<not> segmentThen ''/tiles/'' (drop 5 path)"
  using assms segment_tiles_not_live [of "drop 5 path"]
  by (auto simp: isLivePath_def isTilePath_def)

lemma live_unconfigured_old:
  assumes "liveRequest_old pf request path" "\<not> truthy (LIVE_SERVER_ORIGIN env)"
  shows "routesToStore_old pf request env path"
  using assms by (simp add: liveRequest_old_def routesToStore_old_def)

lemma live_unconfigured_new:
  assumes "liveRequest_new pf request path" "\<not> truthy (LIVE_SERVER_ORIGIN env)"
  shows "routesToStore_new pf request env (drop 5 path)"
proof -
  from assms(1) have "isLivePath path" by (simp add: liveRequest_new_def)
  then have "path = ''maps/'' @ drop 5 path" by (rule isLivePath_maps)
  then show ?thesis
    using assms by (auto simp: liveRequest_new_def routesToStore_new_def split: option.splits)
qed

lemma serve_old_first_gz_hit:
  assumes "shouldTryGz k" "BUCKET env (k @ ''.gz'') = Some object"
  shows "serveFromR2_old k request env =
           ([BucketGet (k @ ''.gz'')],
            r2Response_old object (getMimeType_old k) True 86400 (Some request))"
  using assms by (simp add: serveFromR2_old_def Let_def)

lemma serve_old_first_plain_hit:
  assumes "shouldTryGz k" "BUCKET env (k @ ''.gz'') = None" "BUCKET env k = Some object"
  shows "serveFromR2_old k request env =
           ([BucketGet (k @ ''.gz''), BucketGet k],
            r2Response_old object (getMimeType_old k) False 86400 (Some request))"
  using assms by (simp add: serveFromR2_old_def Let_def)

lemma serve_old_first_miss:
  assumes "shouldTryGz k" "BUCKET env (k @ ''.gz'') = None" "BUCKET env k = None"
  shows "fst (serveFromR2_old k request env) = [BucketGet (k @ ''.gz''), BucketGet k]"
  using assms by (simp add: serveFromR2_old_def Let_def)

lemma serve_old_exact_hit:
  assumes "\<not> shouldTryGz k" "BUCKET env k = Some object"
  shows "serveFromR2_old k request env =
           ([BucketGet k], r2Response_old object (getMimeType_old k) False 86400 (Some request))"
  using assms by (simp add: serveFromR2_old_def Let_def)

lemma serve_old_exact_then_gz:
  assumes "\<not> shouldTryGz k" "BUCKET env k = None" "\<not> endsWith k ''.gz''"
  shows "fst (serveFromR2_old k request env) = [BucketGet k, BucketGet (k @ ''.gz'')]"
  using assms by (simp add: serveFromR2_old_def Let_def split: option.splits)

lemma serve_old_gz_key_miss:
  assumes "BUCKET env k = None" "endsWith k ''.gz''"
  shows "fst (serveFromR2_old k request env) = [BucketGet k]"
  using assms by (simp add: serveFromR2_old_def shouldTryGz_def Let_def)

lemma serve_new_first_gz_hit:
  assumes "endsWith k ''.prbm'' \<or> endsWith k ''textures.json'' \<or> endsWith k ''settings.json''"
    and "BUCKET env (k @ ''.gz'') = Some object"
  shows "serveFromR2_new k request env =
           ([BucketGet (k @ ''.gz'')], compressedR2Response object (getMimeType_new k) request)"
  using assms by (simp add: serveFromR2_new_def Let_def)

lemma serve_new_first_plain_hit:
  assumes "endsWith k ''.prbm'' \<or> endsWith k ''textures.json'' \<or> endsWith k ''settings.json''"
    and "BUCKET env (k @ ''.gz'') = None" "BUCKET env k = Some object"
  shows "serveFromR2_new k request env =
           ([BucketGet (k @ ''.gz''), BucketGet k],
            r2Response_new object (getMimeType_new k) request)"
  using assms by (simp add: serveFromR2_new_def exactKey_new_def Let_def)

lemma serve_new_first_miss:
  assumes "endsWith k ''.prbm'' \<or> endsWith k ''textures.json'' \<or> endsWith k ''settings.json''"
    and "BUCKET env (k @ ''.gz'') = None" "BUCKET env k = None"
  shows "fst (serveFromR2_new k request env) =
           [BucketGet (k @ ''.gz''), BucketGet k, BucketGet (k @ ''.gz'')]"
  using assms compressed_first_not_gz [of k]
  by (simp add: serveFromR2_new_def exactKey_new_def Let_def)

lemma serve_new_exact_hit:
  assumes "\<not> (endsWith k ''.prbm'' \<or> endsWith k ''textures.json'' \<or> endsWith k ''settings.json'')"
    and "BUCKET env k = Some object"
  shows "serveFromR2_new k request env =
           ([BucketGet k], r2Response_new object (getMimeType_new k) request)"
  using assms by (simp add: serveFromR2_new_def exactKey_new_def Let_def)

lemma serve_new_exact_then_gz:
  assumes "\<not> (endsWith k ''.prbm'' \<or> endsWith k ''textures.json'' \<or> endsWith k ''settings.json'')"
    and "BUCKET env k = None" "\<not> endsWith k ''.gz''"
  shows "fst (serveFromR2_new k request env) = [BucketGet k, BucketGet (k @ ''.gz'')]"
  using assms by (simp add: serveFromR2_new_def exactKey_new_def Let_def split: option.splits)

lemma serve_new_gz_key_miss:
  assumes "BUCKET env k = None" "endsWith k ''.gz''"
  shows "fst (serveFromR2_new k request env) = [BucketGet k]"
  using assms gz_not_compressed_first [of k]
  by (simp add: serveFromR2_new_def exactKey_new_def Let_def)

text \<open>No validator, no match.\<close>

lemma no_validator [simp]: "\<not> validatorMatches (req method path []) object"
  by (simp add: validatorMatches_def req_def headers_get_def truthy_def)

lemma read_method_cases:
  assumes "readMethod request"
  shows "rmethod request \<noteq> ''OPTIONS''"
    and "\<not> (rmethod request \<noteq> ''GET'' \<and> rmethod request \<noteq> ''HEAD'')"
  using assms by (auto simp: readMethod_def)

lemma newResponse_text_nil:
  "newResponse (BText t) st [] =
     \<lparr>status = st, hdrs = [(''content-type'', ''text/plain;charset=UTF-8'')],
      body = BText t, encodeBody = Automatic\<rparr>"
  by (simp add: newResponse_def headers_get_def headers_set_def)

lemma fetch_old_live:
  assumes "liveRequest_old pf request path" "truthy (LIVE_SERVER_ORIGIN env)"
    and "urlValid pf (stripTrailingSlashes (the (LIVE_SERVER_ORIGIN env)) @ ''/'' @ path)"
  shows "fetch_old pf request env =
           ([OriginFetch (stripTrailingSlashes (the (LIVE_SERVER_ORIGIN env)) @ ''/'' @ path)
               (rmethod request) (reqHeaders request)],
            case originFetch pf (stripTrailingSlashes (the (LIVE_SERVER_ORIGIN env)) @ ''/'' @ path)
                   (rmethod request) (reqHeaders request) of
              Inr proxyRes \<Rightarrow>
                Inr \<lparr>status = pstatus proxyRes,
                     hdrs = headers_set ''Access-Control-Allow-Origin'' ''*'' (pheaders proxyRes),
                     body = pbody proxyRes,
                     encodeBody = Automatic\<rparr>
            | Inl err \<Rightarrow> Inr (newResponse (BText ''Live server unavailable'') 502 []))"
proof -
  from assms(1) obtain decoded where "decodeURIComponent pf (pathname request) = Some decoded"
    and "r2Key_old decoded = path"
    by (auto simp: liveRequest_old_def split: option.splits)
  moreover from assms(1) have "readMethod request" "isLivePath path"
    by (simp_all add: liveRequest_old_def)
  ultimately show ?thesis
    using assms(2,3) read_method_cases [of request]
    by (simp add: fetch_old_def Let_def)
qed

lemma fetch_new_live:
  assumes "liveRequest_new pf request path" "truthy (LIVE_SERVER_ORIGIN env)"
  shows "fetch_new pf request env =
           ([OriginFetch (stripTrailingSlashes (the (LIVE_SERVER_ORIGIN env)) @ ''/'' @ path)
               (rmethod request)
               (probeHeaders (case headers_get (reqHeaders request) ''Accept'' of
                                Some a \<Rightarrow> a | None \<Rightarrow> ''*/*''))],
            case originFetch pf (stripTrailingSlashes (the (LIVE_SERVER_ORIGIN env)) @ ''/'' @ path)
                   (rmethod request)
                   (probeHeaders (case headers_get (reqHeaders request) ''Accept'' of
                                    Some a \<Rightarrow> a | None \<Rightarrow> ''*/*'')) of
              Inr proxyResponse \<Rightarrow>
                Inr \<lparr>status = pstatus proxyResponse,
                     hdrs = headers_set ''Cache-Control'' ''public, max-age=5''
                              (headers_set ''Access-Control-Allow-Origin'' ''*''
                                 (pheaders proxyResponse)),
                     body = pbody proxyResponse,
                     encodeBody = Automatic\<rparr>
            | Inl err \<Rightarrow> Inr (emptyResponse 502))"
proof -
  from assms(1) obtain decoded where "decodeURIComponent pf (pathname request) = Some decoded"
    and "stripLeadingSlash decoded = path"
    by (auto simp: liveRequest_new_def split: option.splits)
  moreover from assms(1) have "readMethod request" "isLivePath path"
    "pathname request \<noteq> ''/debug/live''" "pathname request \<noteq> ''/debug''"
    by (simp_all add: liveRequest_new_def)
  moreover from \<open>isLivePath path\<close> have "startsWith path ''maps/''"
    by (simp add: isLivePath_def)
  ultimately show ?thesis
    using assms(2) read_method_cases [of request]
    by (simp add: fetch_new_def Let_def split: sum.splits)
qed

lemma methodNotAllowed_eq:
  "methodNotAllowed =
     \<lparr>status = 405, hdrs = [(''content-type'', ''text/plain;charset=UTF-8'')],
      body = BText ''Method Not Allowed'', encodeBody = Automatic\<rparr>"
  by (simp add: methodNotAllowed_def newResponse_text_nil)

lemma preflightResponse_eq:
  "preflightResponse =
     \<lparr>status = 200,
      hdrs = [(''access-control-allow-origin'', ''*''),
              (''access-control-allow-methods'', ''GET, HEAD, OPTIONS''),
              (''access-control-allow-headers'', ''*''),
              (''access-control-max-age'', ''86400'')],
      body = BNull, encodeBody = Automatic\<rparr>"
  by (simp add: preflightResponse_def headers_of_def headers_set_def)

lemma fetch_old_other_method:
  assumes "rmethod request \<noteq> ''OPTIONS''" "rmethod request \<noteq> ''GET''" "rmethod request \<noteq> ''HEAD''"
    and "decodeURIComponent pf (pathname request) = Some decoded"
  shows "fetch_old pf request env = ([], Inr methodNotAllowed)"
  using assms by (simp add: fetch_old_def Let_def)

lemma fetch_new_other_method:
  assumes "rmethod request \<noteq> ''OPTIONS''" "rmethod request \<noteq> ''GET''" "rmethod request \<noteq> ''HEAD''"
    and "pathname request \<noteq> ''/debug/live''" "pathname request \<noteq> ''/debug''"
  shows "fetch_new pf request env = ([], Inr methodNotAllowed)"
  using assms by (simp add: fetch_new_def)

lemma r2Key_old_root: "decoded = [] \<or> decoded = ''/'' \<Longrightarrow> r2Key_old decoded = ''index.html''"
  by (auto simp: r2Key_old_def stripLeadingSlash_def startsWith_def substring_def)

lemma index_html_facts:
  "\<not> shouldTryGz ''index.html''" "\<not> isLivePath ''index.html''"
  "getMimeType_old ''index.html'' = ''text/html; charset=utf-8''"
proof -
  show "\<not> shouldTryGz ''index.html''" by (simp add: shouldTryGz_iff endsWith_def)
  show "\<not> isLivePath ''index.html''" by (simp add: isLivePath_def startsWith_def)
  have "splitPop ([] @ ''index'' @ CHR ''.'' # ''html'') = ''html''"
    by (simp only: append_assoc [symmetric]) (rule splitPop_ext, simp)
  then have "splitPop ''index.html'' = ''html''" by simp
  then show "getMimeType_old ''index.html'' = ''text/html; charset=utf-8''"
    by (simp add: getMimeType_old_def toLowerCase_def toLowerChar_def MIME_TYPES_def)
qed

lemma root_not_maps:
  "decoded = [] \<or> decoded = ''/'' \<Longrightarrow> \<not> startsWith (stripLeadingSlash decoded) ''maps/''"
  by (auto simp: stripLeadingSlash_def startsWith_def substring_def)

lemma gz_key_not_first:
  assumes "endsWith k ''.gz''"
  shows "\<not> shouldTryGz k"
    and "\<not> (endsWith k ''.prbm'' \<or> endsWith k ''textures.json'' \<or> endsWith k ''settings.json'')"
  using gz_not_compressed_first [OF assms] by (simp_all add: shouldTryGz_iff)

lemma key_gz_neq [simp]: "k @ ''.gz'' \<noteq> k" "k \<noteq> k @ ''.gz''"
  by (auto dest: arg_cong [where f = length])

lemma serve_old_trace:
  "fst (serveFromR2_old k request env) = map BucketGet (probes (fst (serveFromR2_old k request env)))"
  by (simp add: serveFromR2_old_def probes_def Let_def split: option.splits)

lemma serve_new_trace:
  "fst (serveFromR2_new k request env) = map BucketGet (probes (fst (serveFromR2_new k request env)))"
  by (simp add: serveFromR2_new_def exactKey_new_def probes_def Let_def split_beta
           split: option.splits)

lemma serve_old_stops:
  "\<forall>c \<in> set (butlast (probes (fst (serveFromR2_old k request env)))). BUCKET env c = None"
  by (simp add: serveFromR2_old_def probes_def Let_def split: option.splits)

lemma serve_new_stops:
  "\<forall>c \<in> set (butlast (probes (fst (serveFromR2_new k request env)))). BUCKET env c = None"
  by (simp add: serveFromR2_new_def exactKey_new_def probes_def Let_def split_beta
           split: option.splits)

lemma serve_old_distinct: "distinct (probes (fst (serveFromR2_old k request env)))"
  by (simp add: serveFromR2_old_def probes_def Let_def split: option.splits)

lemma serve_new_distinct:
  assumes "BUCKET env (k @ ''.gz'') \<noteq> None \<or> BUCKET env k \<noteq> None
             \<or> \<not> (endsWith k ''.prbm'' \<or> endsWith k ''textures.json''
                     \<or> endsWith k ''settings.json'')"
  shows "distinct (probes (fst (serveFromR2_new k request env)))"
  using assms
  by (auto simp: serveFromR2_new_def exactKey_new_def probes_def Let_def split_beta
           split: option.splits)

lemma serve_old_first_probes:
  assumes "endsWith k ''.prbm'' \<or> endsWith k ''textures.json''"
  shows "probes (fst (serveFromR2_old k request env)) =
           (if BUCKET env (k @ ''.gz'') \<noteq> None then [k @ ''.gz''] else [k @ ''.gz'', k])"
  using assms
  by (auto simp: serveFromR2_old_def shouldTryGz_iff probes_def Let_def split: option.splits)

lemma serve_new_first_probes:
  assumes "endsWith k ''.prbm'' \<or> endsWith k ''textures.json'' \<or> endsWith k ''settings.json''"
  shows "BUCKET env (k @ ''.gz'') \<noteq> None \<longrightarrow>
           probes (fst (serveFromR2_new k request env)) = [k @ ''.gz'']"
    and "BUCKET env (k @ ''.gz'') = None \<longrightarrow>
           take 2 (probes (fst (serveFromR2_new k request env))) = [k @ ''.gz'', k]"
    and "BUCKET env (k @ ''.gz'') = None \<and> BUCKET env k \<noteq> None \<longrightarrow>
           probes (fst (serveFromR2_new k request env)) = [k @ ''.gz'', k]"
  using assms
  by (auto simp: serveFromR2_new_def exactKey_new_def probes_def Let_def split_beta
           split: option.splits)

lemma routesToStore_old_headers:
  "routesToStore_old pf (request\<lparr>reqHeaders := hs\<rparr>) env key = routesToStore_old pf request env key"
  by (simp add: routesToStore_old_def readMethod_def)

lemma routesToStore_new_headers:
  "routesToStore_new pf (request\<lparr>reqHeaders := hs\<rparr>) env key = routesToStore_new pf request env key"
  by (simp add: routesToStore_new_def readMethod_def)

lemma validator_absent:
  "headers_get hs ''If-None-Match'' = None \<Longrightarrow> \<not> validatorMatches (request\<lparr>reqHeaders := hs\<rparr>) object"
  by (simp add: validatorMatches_def)

text \<open>
  The lookup by the state of the bucket. The plain object is served when it is there and
  the compressed one, if it is tried first, is not; the compressed object is served when
  it is there and either is tried first or the plain one is absent.
\<close>

lemma serve_old_plain_served:
  assumes "BUCKET env k = Some object"
    and "shouldTryGz k \<longrightarrow> BUCKET env (k @ ''.gz'') = None"
  shows "serveFromR2_old k request env =
           (if shouldTryGz k then [BucketGet (k @ ''.gz''), BucketGet k] else [BucketGet k],
            r2Response_old object (getMimeType_old k) False 86400 (Some request))"
  using assms by (simp add: serveFromR2_old_def Let_def)

lemma serve_old_gz_served:
  assumes "BUCKET env (k @ ''.gz'') = Some object"
    and "shouldTryGz k \<or> (BUCKET env k = None \<and> \<not> endsWith k ''.gz'')"
  shows "serveFromR2_old k request env =
           (if shouldTryGz k then [BucketGet (k @ ''.gz'')]
            else [BucketGet k, BucketGet (k @ ''.gz'')],
            r2Response_old object (getMimeType_old k) True 86400 (Some request))"
  using assms by (auto simp: serveFromR2_old_def Let_def)

lemma serve_new_plain_served:
  assumes "BUCKET env k = Some object"
    and "endsWith k ''.prbm'' \<or> endsWith k ''textures.json'' \<or> endsWith k ''settings.json''
           \<longrightarrow> BUCKET env (k @ ''.gz'') = None"
  shows "serveFromR2_new k request env =
           (if endsWith k ''.prbm'' \<or> endsWith k ''textures.json''
               \<or> endsWith k ''settings.json''
            then [BucketGet (k @ ''.gz''), BucketGet k] else [BucketGet k],
            r2Response_new object (getMimeType_new k) request)"
  using assms by (auto simp: serveFromR2_new_def exactKey_new_def Let_def)

lemma serve_new_gz_served:
  assumes "BUCKET env (k @ ''.gz'') = Some object"
    and "(endsWith k ''.prbm'' \<or> endsWith k ''textures.json'' \<or> endsWith k ''settings.json'')
           \<or> (BUCKET env k = None \<and> \<not> endsWith k ''.gz'')"
  shows "serveFromR2_new k request env =
           (if endsWith k ''.prbm'' \<or> endsWith k ''textures.json''
               \<or> endsWith k ''settings.json''
            then [BucketGet (k @ ''.gz'')] else [BucketGet k, BucketGet (k @ ''.gz'')],
            compressedR2Response object (getMimeType_new k) request)"
  using assms by (auto simp: serveFromR2_new_def exactKey_new_def Let_def)

text \<open>The answers for a found object, written out.\<close>

lemma r2Response_old_record:
  "r2Response_old object contentType gzipped 86400 (Some request) =
     \<lparr>status = (if validatorMatches request object then 304 else 200),
      hdrs = [(''content-type'', contentType), (''etag'', httpEtag object),
              (''cache-control'', ''public, max-age=86400''),
              (''access-control-allow-origin'', ''*'')]
             @ (if gzipped then [(''content-encoding'', ''gzip'')] else []),
      body = (if validatorMatches request object then BNull else BStream (obody object)),
      encodeBody = Automatic\<rparr>"
  by (simp add: r2Response_old_eq)

lemma r2Response_new_record:
  "r2Response_new object contentType request =
     \<lparr>status = (if validatorMatches request object then 304 else 200),
      hdrs = [(''content-type'', contentType), (''etag'', httpEtag object),
              (''cache-control'', ''public, max-age=86400''),
              (''access-control-allow-origin'', ''*'')],
      body = (if validatorMatches request object then BNull else BStream (obody object)),
      encodeBody = Automatic\<rparr>"
  by (simp add: r2Response_new_eq)

lemma compressedR2Response_record:
  "compressedR2Response object contentType request =
     \<lparr>status = (if validatorMatches request object then 304 else 200),
      hdrs = [(''content-type'', contentType), (''content-encoding'', ''gzip''),
              (''etag'', httpEtag object),
              (''cache-control'', ''public, max-age=86400''),
              (''access-control-allow-origin'', ''*'')],
      body = (if validatorMatches request object then BNull else BStream (obody object)),
      encodeBody = (if validatorMatches request object then Automatic else Manual)\<rparr>"
  by (simp add: compressedR2Response_eq)

lemma validator_matches_stored:
  assumes "headers_get (reqHeaders request) ''If-None-Match'' = Some (httpEtag object)"
    and "httpEtag object \<noteq> []"
  shows "validatorMatches request object"
  using assms by (simp add: validatorMatches_def truthy_def)

text \<open>The whole run of a request that reaches the bucket and finds an object.\<close>

lemma fetch_old_plain_served:
  assumes "routesToStore_old pf request env key"
    and "BUCKET env key = Some object \<and>
         (shouldTryGz key \<longrightarrow> BUCKET env (key @ ''.gz'') = None)"
  shows "fetch_old pf request env =
           (if shouldTryGz key then [BucketGet (key @ ''.gz''), BucketGet key]
            else [BucketGet key],
            Inr \<lparr>status = (if validatorMatches request object then 304 else 200),
                 hdrs = [(''content-type'', getMimeType_old key),
                         (''etag'', httpEtag object),
                         (''cache-control'', ''public, max-age=86400''),
                         (''access-control-allow-origin'', ''*'')],
                 body = (if validatorMatches request object then BNull
                         else BStream (obody object)),
                 encodeBody = Automatic\<rparr>)"
proof -
  from assms(2) have "serveFromR2_old key request env =
      (if shouldTryGz key then [BucketGet (key @ ''.gz''), BucketGet key] else [BucketGet key],
       r2Response_old object (getMimeType_old key) False 86400 (Some request))"
    by (intro serve_old_plain_served) simp_all
  then show ?thesis
    by (simp add: fetch_old_store [OF assms(1)] r2Response_old_record)
qed

lemma fetch_old_gz_served:
  assumes "routesToStore_old pf request env key"
    and "BUCKET env (key @ ''.gz'') = Some object \<and>
         (shouldTryGz key \<or> (BUCKET env key = None \<and> \<not> endsWith key ''.gz''))"
  shows "fetch_old pf request env =
           (if shouldTryGz key then [BucketGet (key @ ''.gz'')]
            else [BucketGet key, BucketGet (key @ ''.gz'')],
            Inr \<lparr>status = (if validatorMatches request object then 304 else 200),
                 hdrs = [(''content-type'', getMimeType_old key),
                         (''etag'', httpEtag object),
                         (''cache-control'', ''public, max-age=86400''),
                         (''access-control-allow-origin'', ''*''),
                         (''content-encoding'', ''gzip'')],
                 body = (if validatorMatches request object then BNull
                         else BStream (obody object)),
                 encodeBody = Automatic\<rparr>)"
proof -
  from assms(2) have "serveFromR2_old key request env =
      (if shouldTryGz key then [BucketGet (key @ ''.gz'')]
       else [BucketGet key, BucketGet (key @ ''.gz'')],
       r2Response_old object (getMimeType_old key) True 86400 (Some request))"
    by (intro serve_old_gz_served) simp_all
  then show ?thesis
    by (simp add: fetch_old_store [OF assms(1)] r2Response_old_record)
qed

lemma fetch_new_plain_served:
  assumes "routesToStore_new pf request env key"
    and "BUCKET env key = Some object \<and>
         (endsWith key ''.prbm'' \<or> endsWith key ''textures.json''
            \<or> endsWith key ''settings.json'' \<longrightarrow> BUCKET env (key @ ''.gz'') = None)"
  shows "fetch_new pf request env =
           (if endsWith key ''.prbm'' \<or> endsWith key ''textures.json''
               \<or> endsWith key ''settings.json''
            then [BucketGet (key @ ''.gz''), BucketGet key] else [BucketGet key],
            Inr \<lparr>status = (if validatorMatches request object then 304 else 200),
                 hdrs = [(''content-type'', getMimeType_new key),
                         (''etag'', httpEtag object),
                         (''cache-control'', ''public, max-age=86400''),
                         (''access-control-allow-origin'', ''*'')],
                 body = (if validatorMatches request object then BNull
                         else BStream (obody object)),
                 encodeBody = Automatic\<rparr>)"
proof -
  from assms(2) have "serveFromR2_new key request env =
      (if endsWith key ''.prbm'' \<or> endsWith key ''textures.json''
          \<or> endsWith key ''settings.json''
       then [BucketGet (key @ ''.gz''), BucketGet key] else [BucketGet key],
       r2Response_new object (getMimeType_new key) request)"
    by (intro serve_new_plain_served) simp_all
  then show ?thesis
    by (simp add: fetch_new_store [OF assms(1)] r2Response_new_record)
qed

lemma fetch_new_gz_served:
  assumes "routesToStore_new pf request env key"
    and "BUCKET env (key @ ''.gz'') = Some object \<and>
         ((endsWith key ''.prbm'' \<or> endsWith key ''textures.json''
             \<or> endsWith key ''settings.json'')
          \<or> (BUCKET env key = None \<and> \<not> endsWith key ''.gz''))"
  shows "fetch_new pf request env =
           (if endsWith key ''.prbm'' \<or> endsWith key ''textures.json''
               \<or> endsWith key ''settings.json''
            then [BucketGet (key @ ''.gz'')] else [BucketGet key, BucketGet (key @ ''.gz'')],
            Inr \<lparr>status = (if validatorMatches request object then 304 else 200),
                 hdrs = [(''content-type'', getMimeType_new key),
                         (''content-encoding'', ''gzip''),
                         (''etag'', httpEtag object),
                         (''cache-control'', ''public, max-age=86400''),
                         (''access-control-allow-origin'', ''*'')],
                 body = (if validatorMatches request object then BNull
                         else BStream (obody object)),
                 encodeBody = (if validatorMatches request object then Automatic
                               else Manual)\<rparr>)"
proof -
  from assms(2) have "serveFromR2_new key request env =
      (if endsWith key ''.prbm'' \<or> endsWith key ''textures.json''
          \<or> endsWith key ''settings.json''
       then [BucketGet (key @ ''.gz'')] else [BucketGet key, BucketGet (key @ ''.gz'')],
       compressedR2Response object (getMimeType_new key) request)"
    by (intro serve_new_gz_served) simp_all
  then show ?thesis
    by (simp add: fetch_new_store [OF assms(1)] compressedR2Response_record)
qed

section \<open>The claims\<close>

subsection \<open>C1: An object stored only in compressed form\<close>

text \<open>
  C1. A key of the compressed-only set (it ends in \<^verbatim>\<open>.prbm\<close>, \<^verbatim>\<open>textures.json\<close> or
  \<^verbatim>\<open>settings.json\<close>) of which the bucket holds only the \<^verbatim>\<open>.gz\<close> object: a \<^verbatim>\<open>GET\<close> or
  \<^verbatim>\<open>HEAD\<close> that reaches the bucket with it, and carries no validator equal to the object's
  ETag, is answered with status 200, \<^verbatim>\<open>Content-Encoding: gzip\<close>, the stored bytes, and the
  content type of the requested key, not of the key with \<^verbatim>\<open>.gz\<close>: the octet stream type for
  a tile, the JSON type for the two configuration files. Both versions.
\<close>

theorem gz_only_object_served_compressed:
  assumes cset: "endsWith key ''.prbm'' \<or> endsWith key ''textures.json''
                   \<or> endsWith key ''settings.json''"
    and gz: "BUCKET env (key @ ''.gz'') = Some object"
    and plain: "BUCKET env key = None"
    and fresh: "\<not> validatorMatches request object"
  shows "(routesToStore_old pf request env key \<longrightarrow>
            snd (fetch_old pf request env) =
              Inr \<lparr>status = 200,
                   hdrs = [(''content-type'', getMimeType_old key),
                           (''etag'', httpEtag object),
                           (''cache-control'', ''public, max-age=86400''),
                           (''access-control-allow-origin'', ''*''),
                           (''content-encoding'', ''gzip'')],
                   body = BStream (obody object),
                   encodeBody = Automatic\<rparr> \<and>
            getMimeType_old key =
              (if endsWith key ''.prbm'' then ''application/octet-stream''
               else ''application/json; charset=utf-8''))
       \<and> (routesToStore_new pf request env key \<longrightarrow>
            snd (fetch_new pf request env) =
              Inr \<lparr>status = 200,
                   hdrs = [(''content-type'', getMimeType_new key),
                           (''content-encoding'', ''gzip''),
                           (''etag'', httpEtag object),
                           (''cache-control'', ''public, max-age=86400''),
                           (''access-control-allow-origin'', ''*'')],
                   body = BStream (obody object),
                   encodeBody = Manual\<rparr> \<and>
            getMimeType_new key =
              (if endsWith key ''.prbm'' then ''application/octet-stream''
               else ''application/json''))"
proof -
  have nogz: "\<not> endsWith key ''.gz''" using cset by (rule compressed_first_not_gz)
  have old: "snd (serveFromR2_old key request env) =
               r2Response_old object (getMimeType_old key) True 86400 (Some request)"
    using nogz gz plain by (rule serve_old_gz_only)
  have new: "snd (serveFromR2_new key request env) =
               compressedR2Response object (getMimeType_new key) request"
    using nogz gz plain by (rule serve_new_gz_only)
  show ?thesis
    using fresh old new getMimeType_old_compressed_first [OF cset]
      getMimeType_new_compressed_first [OF cset]
    by (simp add: fetch_old_store fetch_new_store r2Response_old_eq compressedR2Response_eq)
qed

theorem gz_only_object_served_compressed_witness:
  "snd (fetch_old plainPlatform (req ''GET'' ''/maps/world/textures.json'' [])
          (bucketEnv [''maps/world/textures.json.gz'' \<mapsto> stored ''e1'' ''gzip bytes''] None)) =
     Inr \<lparr>status = 200,
          hdrs = [(''content-type'', ''application/json; charset=utf-8''),
                  (''etag'', ''e1''),
                  (''cache-control'', ''public, max-age=86400''),
                  (''access-control-allow-origin'', ''*''),
                  (''content-encoding'', ''gzip'')],
          body = BStream ''gzip bytes'',
          encodeBody = Automatic\<rparr>
   \<and> snd (fetch_new plainPlatform (req ''GET'' ''/maps/world/textures.json'' [])
          (bucketEnv [''world/textures.json.gz'' \<mapsto> stored ''e1'' ''gzip bytes''] None)) =
     Inr \<lparr>status = 200,
          hdrs = [(''content-type'', ''application/json''),
                  (''content-encoding'', ''gzip''),
                  (''etag'', ''e1''),
                  (''cache-control'', ''public, max-age=86400''),
                  (''access-control-allow-origin'', ''*'')],
          body = BStream ''gzip bytes'',
          encodeBody = Manual\<rparr>"
proof -
  let ?rq = "req ''GET'' ''/maps/world/textures.json'' []"
  let ?eo = "bucketEnv [''maps/world/textures.json.gz'' \<mapsto> stored ''e1'' ''gzip bytes''] None"
  let ?en = "bucketEnv [''world/textures.json.gz'' \<mapsto> stored ''e1'' ''gzip bytes''] None"
  have o: "routesToStore_old plainPlatform ?rq ?eo ''maps/world/textures.json''"
    by (simp add: run_simps)
  have n: "routesToStore_new plainPlatform ?rq ?en ''world/textures.json''"
    by (simp add: run_simps)
  have "endsWith ''maps/world/textures.json'' ''textures.json''"
       "endsWith ''world/textures.json'' ''textures.json''"
       "\<not> endsWith ''maps/world/textures.json'' ''.prbm''"
       "\<not> endsWith ''world/textures.json'' ''.prbm''"
    by (simp_all add: endsWith_def)
  then show ?thesis
    using
      gz_only_object_served_compressed
        [of "''maps/world/textures.json''" ?eo "stored ''e1'' ''gzip bytes''" ?rq plainPlatform]
      gz_only_object_served_compressed
        [of "''world/textures.json''" ?en "stored ''e1'' ''gzip bytes''" ?rq plainPlatform]
      o n
    by (simp add: bucketEnv_def stored_def validatorMatches_def req_def headers_get_def truthy_def)
qed

subsection \<open>C2: The order of the lookups\<close>

text \<open>
  C2, as the claim states it, fails on the older version for \<^verbatim>\<open>settings.json\<close>, which is not
  in its compressed-only lists: the plain key is looked up first.
\<close>

theorem probe_order_counterexample:
  "probes (fst (fetch_old plainPlatform (req ''GET'' ''/maps/world/settings.json'' [])
                  (bucketEnv Map.empty None))) =
     [''maps/world/settings.json'', ''maps/world/settings.json.gz'']"
proof -
  let ?rq = "req ''GET'' ''/maps/world/settings.json'' []"
  let ?e = "bucketEnv Map.empty None"
  have r: "routesToStore_old plainPlatform ?rq ?e ''maps/world/settings.json''"
    by (simp add: run_simps)
  have c: "\<not> shouldTryGz ''maps/world/settings.json''"
    by (simp add: shouldTryGz_iff endsWith_def)
  have g: "\<not> endsWith ''maps/world/settings.json'' ''.gz''" by (simp add: endsWith_def)
  have b: "BUCKET ?e ''maps/world/settings.json'' = None" by (simp add: bucketEnv_def)
  show ?thesis
    unfolding fetch_old_store [OF r] fst_conv serve_old_exact_then_gz [OF c b g]
    by (simp add: probes_def)
qed

text \<open>
  The newer version, on a key of the compressed-only set that is absent in both forms,
  looks the \<^verbatim>\<open>.gz\<close> key up a second time: its first block falls through to
  the lookup that is meant for other files. Here for a tile that was never rendered.
\<close>

theorem third_probe_on_miss:
  "probes (fst (fetch_new plainPlatform (req ''GET'' ''/maps/world/tiles/0/x99/z99.prbm'' [])
                  (bucketEnv Map.empty None))) =
     [''world/tiles/0/x99/z99.prbm.gz'', ''world/tiles/0/x99/z99.prbm'',
      ''world/tiles/0/x99/z99.prbm.gz'']"
proof -
  let ?rq = "req ''GET'' ''/maps/world/tiles/0/x99/z99.prbm'' []"
  let ?e = "bucketEnv Map.empty None"
  have r: "routesToStore_new plainPlatform ?rq ?e ''world/tiles/0/x99/z99.prbm''"
    by (simp add: run_simps)
  have c: "endsWith ''world/tiles/0/x99/z99.prbm'' ''.prbm''
           \<or> endsWith ''world/tiles/0/x99/z99.prbm'' ''textures.json''
           \<or> endsWith ''world/tiles/0/x99/z99.prbm'' ''settings.json''"
    by (simp add: endsWith_def)
  have b: "BUCKET ?e (''world/tiles/0/x99/z99.prbm'' @ ''.gz'') = None"
          "BUCKET ?e ''world/tiles/0/x99/z99.prbm'' = None"
    by (simp_all add: bucketEnv_def)
  show ?thesis
    unfolding fetch_new_store [OF r] fst_conv serve_new_first_miss [OF c b]
    by (simp add: probes_def)
qed

text \<open>
  C2, amended. For a \<^verbatim>\<open>GET\<close> or \<^verbatim>\<open>HEAD\<close> that reaches the bucket, the run consists of
  lookups only, and every lookup but the last one missed: the handler stops at the first
  hit. For a key that ends in \<^verbatim>\<open>.prbm\<close> or \<^verbatim>\<open>textures.json\<close>, and in the newer version also
  \<^verbatim>\<open>settings.json\<close>, the first lookup is the key with \<^verbatim>\<open>.gz\<close> and, when that misses, the
  second is the plain key; a hit ends the run there. The older version never looks a key
  up twice and ends after these two lookups; the newer version never looks a key up twice
  when one of them hits.
\<close>

theorem compressed_first_probe_order:
  "(routesToStore_old pf request env key \<longrightarrow>
      fst (fetch_old pf request env) = map BucketGet (probes (fst (fetch_old pf request env))) \<and>
      (\<forall>c \<in> set (butlast (probes (fst (fetch_old pf request env)))). BUCKET env c = None) \<and>
      distinct (probes (fst (fetch_old pf request env))) \<and>
      (endsWith key ''.prbm'' \<or> endsWith key ''textures.json'' \<longrightarrow>
         probes (fst (fetch_old pf request env)) =
           (if BUCKET env (key @ ''.gz'') \<noteq> None then [key @ ''.gz'']
            else [key @ ''.gz'', key])))
   \<and> (routesToStore_new pf request env key \<longrightarrow>
      fst (fetch_new pf request env) = map BucketGet (probes (fst (fetch_new pf request env))) \<and>
      (\<forall>c \<in> set (butlast (probes (fst (fetch_new pf request env)))). BUCKET env c = None) \<and>
      (BUCKET env (key @ ''.gz'') \<noteq> None \<or> BUCKET env key \<noteq> None \<longrightarrow>
         distinct (probes (fst (fetch_new pf request env)))) \<and>
      (endsWith key ''.prbm'' \<or> endsWith key ''textures.json''
          \<or> endsWith key ''settings.json'' \<longrightarrow>
         (BUCKET env (key @ ''.gz'') \<noteq> None \<longrightarrow>
            probes (fst (fetch_new pf request env)) = [key @ ''.gz'']) \<and>
         (BUCKET env (key @ ''.gz'') = None \<longrightarrow>
            take 2 (probes (fst (fetch_new pf request env))) = [key @ ''.gz'', key]) \<and>
         (BUCKET env (key @ ''.gz'') = None \<and> BUCKET env key \<noteq> None \<longrightarrow>
            probes (fst (fetch_new pf request env)) = [key @ ''.gz'', key])))"
proof (intro conjI impI)
  assume r: "routesToStore_old pf request env key"
  show "fst (fetch_old pf request env) = map BucketGet (probes (fst (fetch_old pf request env)))"
    unfolding fetch_old_store [OF r] fst_conv by (rule serve_old_trace)
  show "\<forall>c \<in> set (butlast (probes (fst (fetch_old pf request env)))). BUCKET env c = None"
    unfolding fetch_old_store [OF r] fst_conv by (rule serve_old_stops)
  show "distinct (probes (fst (fetch_old pf request env)))"
    unfolding fetch_old_store [OF r] fst_conv by (rule serve_old_distinct)
  assume "endsWith key ''.prbm'' \<or> endsWith key ''textures.json''"
  then show "probes (fst (fetch_old pf request env)) =
               (if BUCKET env (key @ ''.gz'') \<noteq> None then [key @ ''.gz'']
                else [key @ ''.gz'', key])"
    unfolding fetch_old_store [OF r] fst_conv by (rule serve_old_first_probes)
next
  assume r: "routesToStore_new pf request env key"
  show "fst (fetch_new pf request env) = map BucketGet (probes (fst (fetch_new pf request env)))"
    unfolding fetch_new_store [OF r] fst_conv by (rule serve_new_trace)
  show "\<forall>c \<in> set (butlast (probes (fst (fetch_new pf request env)))). BUCKET env c = None"
    unfolding fetch_new_store [OF r] fst_conv by (rule serve_new_stops)
  {
    assume "BUCKET env (key @ ''.gz'') \<noteq> None \<or> BUCKET env key \<noteq> None"
    then show "distinct (probes (fst (fetch_new pf request env)))"
      unfolding fetch_new_store [OF r] fst_conv by (intro serve_new_distinct) blast
  }
  assume c: "endsWith key ''.prbm'' \<or> endsWith key ''textures.json''
               \<or> endsWith key ''settings.json''"
  {
    assume "BUCKET env (key @ ''.gz'') \<noteq> None"
    then show "probes (fst (fetch_new pf request env)) = [key @ ''.gz'']"
      unfolding fetch_new_store [OF r] fst_conv using serve_new_first_probes(1) [OF c] by blast
  }
  {
    assume "BUCKET env (key @ ''.gz'') = None"
    then show "take 2 (probes (fst (fetch_new pf request env))) = [key @ ''.gz'', key]"
      unfolding fetch_new_store [OF r] fst_conv using serve_new_first_probes(2) [OF c] by blast
  }
  {
    assume "BUCKET env (key @ ''.gz'') = None \<and> BUCKET env key \<noteq> None"
    then show "probes (fst (fetch_new pf request env)) = [key @ ''.gz'', key]"
      unfolding fetch_new_store [OF r] fst_conv using serve_new_first_probes(3) [OF c] by blast
  }
qed

theorem compressed_first_probe_order_witness:
  "probes (fst (fetch_old plainPlatform (req ''GET'' ''/maps/world/textures.json'' [])
                  (bucketEnv [''maps/world/textures.json'' \<mapsto> stored ''e5'' ''{}''] None))) =
     [''maps/world/textures.json.gz'', ''maps/world/textures.json'']
   \<and> distinct (probes (fst (fetch_old plainPlatform (req ''GET'' ''/maps/world/textures.json'' [])
                  (bucketEnv [''maps/world/textures.json'' \<mapsto> stored ''e5'' ''{}''] None))))
   \<and> probes (fst (fetch_new plainPlatform (req ''GET'' ''/maps/world/settings.json'' [])
                  (bucketEnv [''world/settings.json'' \<mapsto> stored ''e5'' ''{}''] None))) =
     [''world/settings.json.gz'', ''world/settings.json'']
   \<and> distinct (probes (fst (fetch_new plainPlatform (req ''GET'' ''/maps/world/settings.json'' [])
                  (bucketEnv [''world/settings.json'' \<mapsto> stored ''e5'' ''{}''] None))))"
proof -
  let ?rt = "req ''GET'' ''/maps/world/textures.json'' []"
  let ?rs = "req ''GET'' ''/maps/world/settings.json'' []"
  let ?eo = "bucketEnv [''maps/world/textures.json'' \<mapsto> stored ''e5'' ''{}''] None"
  let ?en = "bucketEnv [''world/settings.json'' \<mapsto> stored ''e5'' ''{}''] None"
  have ro: "routesToStore_old plainPlatform ?rt ?eo ''maps/world/textures.json''"
    and rn: "routesToStore_new plainPlatform ?rs ?en ''world/settings.json''"
    by (simp_all add: run_simps)
  have co: "endsWith ''maps/world/textures.json'' ''.prbm''
            \<or> endsWith ''maps/world/textures.json'' ''textures.json''"
    and cn: "endsWith ''world/settings.json'' ''.prbm''
            \<or> endsWith ''world/settings.json'' ''textures.json''
            \<or> endsWith ''world/settings.json'' ''settings.json''"
    by (simp_all add: endsWith_def)
  have bo: "BUCKET ?eo (''maps/world/textures.json'' @ ''.gz'') = None"
    and bn: "BUCKET ?en (''world/settings.json'' @ ''.gz'') = None
             \<and> BUCKET ?en ''world/settings.json'' \<noteq> None"
    by (simp_all add: bucketEnv_def)
  note o = compressed_first_probe_order
             [of plainPlatform ?rt ?eo "''maps/world/textures.json''",
              THEN conjunct1, THEN mp, OF ro]
  note n = compressed_first_probe_order
             [of plainPlatform ?rs ?en "''world/settings.json''",
              THEN conjunct2, THEN mp, OF rn]
  from o co bo
  have o1: "probes (fst (fetch_old plainPlatform ?rt ?eo)) =
              [''maps/world/textures.json'' @ ''.gz'', ''maps/world/textures.json'']"
    by presburger
  from o have o2: "distinct (probes (fst (fetch_old plainPlatform ?rt ?eo)))" by blast
  from n cn bn
  have n1: "probes (fst (fetch_new plainPlatform ?rs ?en)) =
              [''world/settings.json'' @ ''.gz'', ''world/settings.json'']"
    by blast
  from n bn have n2: "distinct (probes (fst (fetch_new plainPlatform ?rs ?en)))" by blast
  from o1 o2 n1 n2 show ?thesis by simp
qed

subsection \<open>C3: A key that is absent in every form\<close>

text \<open>
  C3. A \<^verbatim>\<open>GET\<close> or \<^verbatim>\<open>HEAD\<close> that reaches the bucket with a key of which every candidate is
  absent (the key, and the key with \<^verbatim>\<open>.gz\<close> unless it has that suffix already): for a tile
  path the answer is status 204 with no body and the CORS header as its only header, so
  with neither \<^verbatim>\<open>Content-Encoding\<close> nor \<^verbatim>\<open>Cache-Control\<close>; for any other path it is status
  404 with the CORS header. The newer version answers the same 404 for a path outside
  \<^verbatim>\<open>maps/\<close>, without a lookup. Both versions.
\<close>

theorem exhausted_candidates_204_or_404:
  assumes miss: "BUCKET env key = None"
    and missgz: "\<not> endsWith key ''.gz'' \<longrightarrow> BUCKET env (key @ ''.gz'') = None"
  shows "(routesToStore_old pf request env key \<longrightarrow>
            snd (fetch_old pf request env) =
              Inr (if isTilePath key
                   then \<lparr>status = 204,
                         hdrs = [(''access-control-allow-origin'', ''*'')],
                         body = BNull, encodeBody = Automatic\<rparr>
                   else \<lparr>status = 404,
                         hdrs = [(''access-control-allow-origin'', ''*''),
                                 (''content-type'', ''text/plain;charset=UTF-8'')],
                         body = BText ''Not Found'', encodeBody = Automatic\<rparr>))
       \<and> (routesToStore_new pf request env key \<longrightarrow>
            snd (fetch_new pf request env) =
              Inr \<lparr>status = (if segmentThen ''/tiles/'' key then 204 else 404),
                   hdrs = [(''access-control-allow-origin'', ''*'')],
                   body = BNull, encodeBody = Automatic\<rparr>)
       \<and> (pathname request \<noteq> ''/debug/live'' \<and> pathname request \<noteq> ''/debug'' \<and>
          readMethod request \<and>
          (case decodeURIComponent pf (pathname request) of
             None \<Rightarrow> False
           | Some decoded \<Rightarrow> \<not> startsWith (stripLeadingSlash decoded) ''maps/'') \<longrightarrow>
            fetch_new pf request env =
              ([], Inr \<lparr>status = 404,
                        hdrs = [(''access-control-allow-origin'', ''*'')],
                        body = BNull, encodeBody = Automatic\<rparr>))"
proof -
  have "fetch_new pf request env = ([], Inr (emptyResponse 404))"
    if "pathname request \<noteq> ''/debug/live''" "pathname request \<noteq> ''/debug''"
      "readMethod request"
      "case decodeURIComponent pf (pathname request) of
         None \<Rightarrow> False
       | Some decoded \<Rightarrow> \<not> startsWith (stripLeadingSlash decoded) ''maps/''"
    using that get_not_options [of request]
    by (auto simp: fetch_new_def readMethod_def split: option.splits)
  then show ?thesis
    using serve_old_miss [OF miss missgz, of request] serve_new_miss [OF miss missgz, of request]
    by (simp add: fetch_old_store fetch_new_store emptyResponse_def)
qed

theorem exhausted_candidates_204_or_404_witness:
  "snd (fetch_old plainPlatform (req ''GET'' ''/maps/world/tiles/0/x99/z99.prbm'' [])
          (bucketEnv Map.empty None)) =
     Inr \<lparr>status = 204, hdrs = [(''access-control-allow-origin'', ''*'')],
          body = BNull, encodeBody = Automatic\<rparr>
   \<and> snd (fetch_new plainPlatform (req ''GET'' ''/maps/world/tiles/0/x99/z99.prbm'' [])
          (bucketEnv Map.empty None)) =
     Inr \<lparr>status = 204, hdrs = [(''access-control-allow-origin'', ''*'')],
          body = BNull, encodeBody = Automatic\<rparr>
   \<and> snd (fetch_old plainPlatform (req ''HEAD'' ''/maps/world/markers.json'' [])
          (bucketEnv Map.empty None)) =
     Inr \<lparr>status = 404,
          hdrs = [(''access-control-allow-origin'', ''*''),
                  (''content-type'', ''text/plain;charset=UTF-8'')],
          body = BText ''Not Found'', encodeBody = Automatic\<rparr>
   \<and> snd (fetch_new plainPlatform (req ''HEAD'' ''/maps/world/markers.json'' [])
          (bucketEnv Map.empty None)) =
     Inr \<lparr>status = 404, hdrs = [(''access-control-allow-origin'', ''*'')],
          body = BNull, encodeBody = Automatic\<rparr>
   \<and> fetch_new plainPlatform (req ''GET'' ''/favicon.ico'' []) (bucketEnv Map.empty None) =
     ([], Inr \<lparr>status = 404, hdrs = [(''access-control-allow-origin'', ''*'')],
               body = BNull, encodeBody = Automatic\<rparr>)"
proof -
  let ?f = "req ''GET'' ''/favicon.ico'' []"
  have f: "pathname ?f \<noteq> ''/debug/live'' \<and> pathname ?f \<noteq> ''/debug'' \<and> readMethod ?f \<and>
           (case decodeURIComponent plainPlatform (pathname ?f) of
              None \<Rightarrow> False
            | Some decoded \<Rightarrow> \<not> startsWith (stripLeadingSlash decoded) ''maps/'')"
    by (simp add: run_simps)
  let ?e = "bucketEnv Map.empty None"
  let ?t = "req ''GET'' ''/maps/world/tiles/0/x99/z99.prbm'' []"
  let ?m = "req ''HEAD'' ''/maps/world/markers.json'' []"
  have r: "routesToStore_old plainPlatform ?t ?e ''maps/world/tiles/0/x99/z99.prbm''"
          "routesToStore_new plainPlatform ?t ?e ''world/tiles/0/x99/z99.prbm''"
          "routesToStore_old plainPlatform ?m ?e ''maps/world/markers.json''"
          "routesToStore_new plainPlatform ?m ?e ''world/markers.json''"
    by (simp_all add: run_simps)
  have t: "isTilePath ''maps/world/tiles/0/x99/z99.prbm''"
          "segmentThen ''/tiles/'' ''world/tiles/0/x99/z99.prbm''"
          "\<not> isTilePath ''maps/world/markers.json''"
          "\<not> segmentThen ''/tiles/'' ''world/markers.json''"
    by (simp_all add: run_simps)
  have b: "BUCKET ?e k = None" for k by (simp add: bucketEnv_def)
  show ?thesis
    using
      exhausted_candidates_204_or_404
        [of ?e "''maps/world/tiles/0/x99/z99.prbm''" plainPlatform ?t]
      exhausted_candidates_204_or_404
        [of ?e "''world/tiles/0/x99/z99.prbm''" plainPlatform ?t]
      exhausted_candidates_204_or_404
        [of ?e "''maps/world/markers.json''" plainPlatform ?m]
      exhausted_candidates_204_or_404
        [of ?e "''world/markers.json''" plainPlatform ?m]
      exhausted_candidates_204_or_404
        [of ?e "''favicon.ico''" plainPlatform ?f]
      r t b f
    by simp
qed

subsection \<open>C4: A live path without an origin\<close>

text \<open>
  C4, as the claim states it, fails: with no origin configured a live path is looked up in
  the bucket like any other path, and an object stored under it is served with status 200.
\<close>

theorem live_unconfigured_counterexample:
  "fetch_new plainPlatform (req ''GET'' ''/maps/world/live/markers.json'' [])
     (bucketEnv [''world/live/markers.json'' \<mapsto> stored ''e2'' ''{}''] None) =
     ([BucketGet ''world/live/markers.json''],
      Inr \<lparr>status = 200,
           hdrs = [(''content-type'', ''application/json''), (''etag'', ''e2''),
                   (''cache-control'', ''public, max-age=86400''),
                   (''access-control-allow-origin'', ''*'')],
           body = BStream ''{}'', encodeBody = Automatic\<rparr>)
   \<and> fetch_old plainPlatform (req ''GET'' ''/maps/world/live/markers.json'' [])
     (bucketEnv [''maps/world/live/markers.json'' \<mapsto> stored ''e2'' ''{}''] None) =
     ([BucketGet ''maps/world/live/markers.json''],
      Inr \<lparr>status = 200,
           hdrs = [(''content-type'', ''application/json; charset=utf-8''), (''etag'', ''e2''),
                   (''cache-control'', ''public, max-age=86400''),
                   (''access-control-allow-origin'', ''*'')],
           body = BStream ''{}'', encodeBody = Automatic\<rparr>)"
proof -
  let ?rq = "req ''GET'' ''/maps/world/live/markers.json'' []"
  let ?en = "bucketEnv [''world/live/markers.json'' \<mapsto> stored ''e2'' ''{}''] None"
  let ?eo = "bucketEnv [''maps/world/live/markers.json'' \<mapsto> stored ''e2'' ''{}''] None"
  have rn: "routesToStore_new plainPlatform ?rq ?en ''world/live/markers.json''"
    and ro: "routesToStore_old plainPlatform ?rq ?eo ''maps/world/live/markers.json''"
    by (simp_all add: run_simps)
  have j: "endsWith ''world/live/markers.json'' ''.json''"
          "endsWith ''maps/world/live/markers.json'' ''.json''"
    by (simp_all add: endsWith_def)
  have cn: "\<not> (endsWith ''world/live/markers.json'' ''.prbm''
               \<or> endsWith ''world/live/markers.json'' ''textures.json''
               \<or> endsWith ''world/live/markers.json'' ''settings.json'')"
    and mn: "getMimeType_new ''world/live/markers.json'' = ''application/json''"
    by (simp_all add: endsWith_def getMimeType_new_def)
  have co: "\<not> shouldTryGz ''maps/world/live/markers.json''"
    by (simp add: shouldTryGz_iff endsWith_def)
  have bn: "BUCKET ?en ''world/live/markers.json'' = Some (stored ''e2'' ''{}'')"
    and bo: "BUCKET ?eo ''maps/world/live/markers.json'' = Some (stored ''e2'' ''{}'')"
    by (simp_all add: bucketEnv_def)
  have n: "fetch_new plainPlatform ?rq ?en =
             ([BucketGet ''world/live/markers.json''],
              Inr (r2Response_new (stored ''e2'' ''{}'') ''application/json'' ?rq))"
    by (simp only: fetch_new_store [OF rn] serve_new_exact_hit [OF cn bn] mn fst_conv snd_conv)
  have o: "fetch_old plainPlatform ?rq ?eo =
             ([BucketGet ''maps/world/live/markers.json''],
              Inr (r2Response_old (stored ''e2'' ''{}'') ''application/json; charset=utf-8''
                     False 86400 (Some ?rq)))"
    by (simp only: fetch_old_store [OF ro] serve_old_exact_hit [OF co bo]
          getMimeType_old_json [OF j(2)] fst_conv snd_conv)
  show ?thesis
    unfolding n o by (simp add: r2Response_new_eq r2Response_old_eq stored_def)
qed

text \<open>
  C4, amended. A \<^verbatim>\<open>GET\<close> or \<^verbatim>\<open>HEAD\<close> for a live path while no origin is configured makes no
  network call; it is looked up in the bucket like any other path, so the bucket is
  accessed. When every candidate is absent the answer is 404 with the CORS header. When
  the plain object is there (and the compressed one, if it is tried first, is not) it is
  served; when the compressed object is there (and is tried first, or the plain one is
  absent) it is served with \<^verbatim>\<open>Content-Encoding: gzip\<close>: status 200 with the stored bytes, or
  304 with no body when the request carries a validator equal to the object's ETag.
  Both versions; the key of the newer version is the path without \<^verbatim>\<open>maps/\<close>.
\<close>

theorem live_unconfigured_served_from_store:
  assumes off: "\<not> truthy (LIVE_SERVER_ORIGIN env)"
  shows "(liveRequest_old pf request path \<longrightarrow>
            networkCalls (fst (fetch_old pf request env)) = [] \<and>
            probes (fst (fetch_old pf request env)) \<noteq> [] \<and>
            (BUCKET env path = None \<and>
             (\<not> endsWith path ''.gz'' \<longrightarrow> BUCKET env (path @ ''.gz'') = None) \<longrightarrow>
               snd (fetch_old pf request env) =
                 Inr \<lparr>status = 404,
                      hdrs = [(''access-control-allow-origin'', ''*''),
                              (''content-type'', ''text/plain;charset=UTF-8'')],
                      body = BText ''Not Found'', encodeBody = Automatic\<rparr>) \<and>
            (BUCKET env path = Some object \<and>
             (shouldTryGz path \<longrightarrow> BUCKET env (path @ ''.gz'') = None) \<longrightarrow>
               snd (fetch_old pf request env) =
                 Inr \<lparr>status = (if validatorMatches request object then 304 else 200),
                      hdrs = [(''content-type'', getMimeType_old path),
                              (''etag'', httpEtag object),
                              (''cache-control'', ''public, max-age=86400''),
                              (''access-control-allow-origin'', ''*'')],
                      body = (if validatorMatches request object then BNull
                              else BStream (obody object)),
                      encodeBody = Automatic\<rparr>) \<and>
            (BUCKET env (path @ ''.gz'') = Some object \<and>
             (shouldTryGz path \<or> (BUCKET env path = None \<and> \<not> endsWith path ''.gz'')) \<longrightarrow>
               snd (fetch_old pf request env) =
                 Inr \<lparr>status = (if validatorMatches request object then 304 else 200),
                      hdrs = [(''content-type'', getMimeType_old path),
                              (''etag'', httpEtag object),
                              (''cache-control'', ''public, max-age=86400''),
                              (''access-control-allow-origin'', ''*''),
                              (''content-encoding'', ''gzip'')],
                      body = (if validatorMatches request object then BNull
                              else BStream (obody object)),
                      encodeBody = Automatic\<rparr>))
       \<and> (liveRequest_new pf request path \<longrightarrow>
            networkCalls (fst (fetch_new pf request env)) = [] \<and>
            probes (fst (fetch_new pf request env)) \<noteq> [] \<and>
            (BUCKET env (drop 5 path) = None \<and>
             (\<not> endsWith (drop 5 path) ''.gz'' \<longrightarrow> BUCKET env (drop 5 path @ ''.gz'') = None) \<longrightarrow>
               snd (fetch_new pf request env) =
                 Inr \<lparr>status = 404,
                      hdrs = [(''access-control-allow-origin'', ''*'')],
                      body = BNull, encodeBody = Automatic\<rparr>) \<and>
            (BUCKET env (drop 5 path) = Some object \<and>
             (endsWith (drop 5 path) ''.prbm'' \<or> endsWith (drop 5 path) ''textures.json''
                \<or> endsWith (drop 5 path) ''settings.json''
              \<longrightarrow> BUCKET env (drop 5 path @ ''.gz'') = None) \<longrightarrow>
               snd (fetch_new pf request env) =
                 Inr \<lparr>status = (if validatorMatches request object then 304 else 200),
                      hdrs = [(''content-type'', getMimeType_new (drop 5 path)),
                              (''etag'', httpEtag object),
                              (''cache-control'', ''public, max-age=86400''),
                              (''access-control-allow-origin'', ''*'')],
                      body = (if validatorMatches request object then BNull
                              else BStream (obody object)),
                      encodeBody = Automatic\<rparr>) \<and>
            (BUCKET env (drop 5 path @ ''.gz'') = Some object \<and>
             ((endsWith (drop 5 path) ''.prbm'' \<or> endsWith (drop 5 path) ''textures.json''
                \<or> endsWith (drop 5 path) ''settings.json'')
              \<or> (BUCKET env (drop 5 path) = None \<and> \<not> endsWith (drop 5 path) ''.gz'')) \<longrightarrow>
               snd (fetch_new pf request env) =
                 Inr \<lparr>status = (if validatorMatches request object then 304 else 200),
                      hdrs = [(''content-type'', getMimeType_new (drop 5 path)),
                              (''content-encoding'', ''gzip''),
                              (''etag'', httpEtag object),
                              (''cache-control'', ''public, max-age=86400''),
                              (''access-control-allow-origin'', ''*'')],
                      body = (if validatorMatches request object then BNull
                              else BStream (obody object)),
                      encodeBody = (if validatorMatches request object then Automatic
                                    else Manual)\<rparr>))"
proof (intro conjI impI)
  assume l: "liveRequest_old pf request path"
  then have r: "routesToStore_old pf request env path" using off by (rule live_unconfigured_old)
  from l have t: "\<not> isTilePath path" by (simp add: liveRequest_old_def isLivePath_not_tile)
  show "networkCalls (fst (fetch_old pf request env)) = []"
    by (simp add: fetch_old_store [OF r] serve_old_no_network)
  show "probes (fst (fetch_old pf request env)) \<noteq> []"
    by (simp add: fetch_old_store [OF r] serve_old_probes)
  {
    assume "BUCKET env path = None \<and>
            (\<not> endsWith path ''.gz'' \<longrightarrow> BUCKET env (path @ ''.gz'') = None)"
    then show "snd (fetch_old pf request env) =
                 Inr \<lparr>status = 404,
                      hdrs = [(''access-control-allow-origin'', ''*''),
                              (''content-type'', ''text/plain;charset=UTF-8'')],
                      body = BText ''Not Found'', encodeBody = Automatic\<rparr>"
      using t by (simp add: fetch_old_store [OF r] serve_old_miss)
  }
  {
    assume "BUCKET env path = Some object \<and>
            (shouldTryGz path \<longrightarrow> BUCKET env (path @ ''.gz'') = None)"
    then have "serveFromR2_old path request env =
                 (if shouldTryGz path then [BucketGet (path @ ''.gz''), BucketGet path]
                  else [BucketGet path],
                  r2Response_old object (getMimeType_old path) False 86400 (Some request))"
      by (intro serve_old_plain_served) simp_all
    then show "snd (fetch_old pf request env) =
                 Inr \<lparr>status = (if validatorMatches request object then 304 else 200),
                      hdrs = [(''content-type'', getMimeType_old path),
                              (''etag'', httpEtag object),
                              (''cache-control'', ''public, max-age=86400''),
                              (''access-control-allow-origin'', ''*'')],
                      body = (if validatorMatches request object then BNull
                              else BStream (obody object)),
                      encodeBody = Automatic\<rparr>"
      by (simp add: fetch_old_store [OF r] r2Response_old_record)
  }
  {
    assume "BUCKET env (path @ ''.gz'') = Some object \<and>
            (shouldTryGz path \<or> (BUCKET env path = None \<and> \<not> endsWith path ''.gz''))"
    then have "serveFromR2_old path request env =
                 (if shouldTryGz path then [BucketGet (path @ ''.gz'')]
                  else [BucketGet path, BucketGet (path @ ''.gz'')],
                  r2Response_old object (getMimeType_old path) True 86400 (Some request))"
      by (intro serve_old_gz_served) simp_all
    then show "snd (fetch_old pf request env) =
                 Inr \<lparr>status = (if validatorMatches request object then 304 else 200),
                      hdrs = [(''content-type'', getMimeType_old path),
                              (''etag'', httpEtag object),
                              (''cache-control'', ''public, max-age=86400''),
                              (''access-control-allow-origin'', ''*''),
                              (''content-encoding'', ''gzip'')],
                      body = (if validatorMatches request object then BNull
                              else BStream (obody object)),
                      encodeBody = Automatic\<rparr>"
      by (simp add: fetch_old_store [OF r] r2Response_old_record)
  }
next
  let ?k = "drop 5 path"
  assume l: "liveRequest_new pf request path"
  then have r: "routesToStore_new pf request env ?k"
    using off by (rule live_unconfigured_new)
  from l have t: "\<not> segmentThen ''/tiles/'' ?k"
    by (simp add: liveRequest_new_def isLivePath_not_tile)
  show "networkCalls (fst (fetch_new pf request env)) = []"
    by (simp add: fetch_new_store [OF r] serve_new_no_network)
  show "probes (fst (fetch_new pf request env)) \<noteq> []"
    by (simp add: fetch_new_store [OF r] serve_new_probes)
  {
    assume "BUCKET env ?k = None \<and>
            (\<not> endsWith ?k ''.gz'' \<longrightarrow> BUCKET env (?k @ ''.gz'') = None)"
    then show "snd (fetch_new pf request env) =
                 Inr \<lparr>status = 404,
                      hdrs = [(''access-control-allow-origin'', ''*'')],
                      body = BNull, encodeBody = Automatic\<rparr>"
      using t by (simp add: fetch_new_store [OF r] serve_new_miss emptyResponse_def)
  }
  {
    assume "BUCKET env ?k = Some object \<and>
            (endsWith ?k ''.prbm'' \<or> endsWith ?k ''textures.json''
               \<or> endsWith ?k ''settings.json''
             \<longrightarrow> BUCKET env (?k @ ''.gz'') = None)"
    then have "serveFromR2_new ?k request env =
                 (if endsWith ?k ''.prbm'' \<or> endsWith ?k ''textures.json''
                     \<or> endsWith ?k ''settings.json''
                  then [BucketGet (?k @ ''.gz''), BucketGet ?k] else [BucketGet ?k],
                  r2Response_new object (getMimeType_new ?k) request)"
      by (intro serve_new_plain_served) simp_all
    then show "snd (fetch_new pf request env) =
                 Inr \<lparr>status = (if validatorMatches request object then 304 else 200),
                      hdrs = [(''content-type'', getMimeType_new ?k),
                              (''etag'', httpEtag object),
                              (''cache-control'', ''public, max-age=86400''),
                              (''access-control-allow-origin'', ''*'')],
                      body = (if validatorMatches request object then BNull
                              else BStream (obody object)),
                      encodeBody = Automatic\<rparr>"
      by (simp add: fetch_new_store [OF r] r2Response_new_record)
  }
  {
    assume "BUCKET env (?k @ ''.gz'') = Some object \<and>
            ((endsWith ?k ''.prbm'' \<or> endsWith ?k ''textures.json''
                \<or> endsWith ?k ''settings.json'')
             \<or> (BUCKET env ?k = None \<and> \<not> endsWith ?k ''.gz''))"
    then have "serveFromR2_new ?k request env =
                 (if endsWith ?k ''.prbm'' \<or> endsWith ?k ''textures.json''
                     \<or> endsWith ?k ''settings.json''
                  then [BucketGet (?k @ ''.gz'')] else [BucketGet ?k, BucketGet (?k @ ''.gz'')],
                  compressedR2Response object (getMimeType_new ?k) request)"
      by (intro serve_new_gz_served) simp_all
    then show "snd (fetch_new pf request env) =
                 Inr \<lparr>status = (if validatorMatches request object then 304 else 200),
                      hdrs = [(''content-type'', getMimeType_new ?k),
                              (''content-encoding'', ''gzip''),
                              (''etag'', httpEtag object),
                              (''cache-control'', ''public, max-age=86400''),
                              (''access-control-allow-origin'', ''*'')],
                      body = (if validatorMatches request object then BNull
                              else BStream (obody object)),
                      encodeBody = (if validatorMatches request object then Automatic
                                    else Manual)\<rparr>"
      by (simp add: fetch_new_store [OF r] compressedR2Response_record)
  }
qed

theorem live_unconfigured_served_from_store_witness:
  "networkCalls (fst (fetch_old plainPlatform (req ''GET'' ''/maps/world/live/players.json'' [])
       (bucketEnv [''maps/world/live/players.json'' \<mapsto> stored ''e6'' ''[]''] None))) = []
   \<and> snd (fetch_old plainPlatform (req ''GET'' ''/maps/world/live/players.json'' [])
       (bucketEnv [''maps/world/live/players.json'' \<mapsto> stored ''e6'' ''[]''] None)) =
       Inr \<lparr>status = 200,
            hdrs = [(''content-type'', ''application/json; charset=utf-8''), (''etag'', ''e6''),
                    (''cache-control'', ''public, max-age=86400''),
                    (''access-control-allow-origin'', ''*'')],
            body = BStream ''[]'', encodeBody = Automatic\<rparr>
   \<and> snd (fetch_old plainPlatform (req ''GET'' ''/maps/world/live/players.json'' [])
       (bucketEnv [''maps/world/live/players.json.gz'' \<mapsto> stored ''e6'' ''gz''] None)) =
       Inr \<lparr>status = 200,
            hdrs = [(''content-type'', ''application/json; charset=utf-8''), (''etag'', ''e6''),
                    (''cache-control'', ''public, max-age=86400''),
                    (''access-control-allow-origin'', ''*''),
                    (''content-encoding'', ''gzip'')],
            body = BStream ''gz'', encodeBody = Automatic\<rparr>
   \<and> snd (fetch_old plainPlatform (req ''GET'' ''/maps/world/live/players.json'' [])
       (bucketEnv Map.empty None)) =
       Inr \<lparr>status = 404,
            hdrs = [(''access-control-allow-origin'', ''*''),
                    (''content-type'', ''text/plain;charset=UTF-8'')],
            body = BText ''Not Found'', encodeBody = Automatic\<rparr>
   \<and> networkCalls (fst (fetch_new plainPlatform (req ''GET'' ''/maps/world/live/players.json'' [])
       (bucketEnv [''world/live/players.json'' \<mapsto> stored ''e6'' ''[]''] (Some [])))) = []
   \<and> snd (fetch_new plainPlatform (req ''GET'' ''/maps/world/live/players.json'' [])
       (bucketEnv [''world/live/players.json'' \<mapsto> stored ''e6'' ''[]''] (Some []))) =
       Inr \<lparr>status = 200,
            hdrs = [(''content-type'', ''application/json''), (''etag'', ''e6''),
                    (''cache-control'', ''public, max-age=86400''),
                    (''access-control-allow-origin'', ''*'')],
            body = BStream ''[]'', encodeBody = Automatic\<rparr>
   \<and> snd (fetch_new plainPlatform (req ''GET'' ''/maps/world/live/players.json'' [])
       (bucketEnv [''world/live/players.json.gz'' \<mapsto> stored ''e6'' ''gz''] (Some []))) =
       Inr \<lparr>status = 200,
            hdrs = [(''content-type'', ''application/json''), (''content-encoding'', ''gzip''),
                    (''etag'', ''e6''),
                    (''cache-control'', ''public, max-age=86400''),
                    (''access-control-allow-origin'', ''*'')],
            body = BStream ''gz'', encodeBody = Manual\<rparr>
   \<and> snd (fetch_new plainPlatform (req ''GET'' ''/maps/world/live/players.json'' [])
       (bucketEnv Map.empty (Some []))) =
       Inr \<lparr>status = 404, hdrs = [(''access-control-allow-origin'', ''*'')],
            body = BNull, encodeBody = Automatic\<rparr>"
proof -
  let ?rq = "req ''GET'' ''/maps/world/live/players.json'' []"
  let ?p = "''maps/world/live/players.json''"
  let ?k = "''world/live/players.json''"
  let ?plain = "stored ''e6'' ''[]''"
  let ?comp = "stored ''e6'' ''gz''"
  let ?oh = "bucketEnv [''maps/world/live/players.json'' \<mapsto> ?plain] None"
  let ?og = "bucketEnv [''maps/world/live/players.json.gz'' \<mapsto> ?comp] None"
  let ?om = "bucketEnv Map.empty None"
  let ?nh = "bucketEnv [''world/live/players.json'' \<mapsto> ?plain] (Some [])"
  let ?ng = "bucketEnv [''world/live/players.json.gz'' \<mapsto> ?comp] (Some [])"
  let ?nm = "bucketEnv Map.empty (Some [])"
  have lo: "liveRequest_old plainPlatform ?rq ?p" and ln: "liveRequest_new plainPlatform ?rq ?p"
    by (simp_all add: run_simps)
  have off: "\<not> truthy (LIVE_SERVER_ORIGIN (bucketEnv b None))"
            "\<not> truthy (LIVE_SERVER_ORIGIN (bucketEnv b (Some [])))" for b
    by (simp_all add: bucketEnv_def truthy_def)
  have d: "drop 5 ?p = ?k" by simp
  have c: "\<not> shouldTryGz ?p" "\<not> endsWith ?p ''.gz''" "endsWith ?p ''.json''"
          "\<not> (endsWith ?k ''.prbm'' \<or> endsWith ?k ''textures.json''
               \<or> endsWith ?k ''settings.json'')"
          "\<not> endsWith ?k ''.gz''"
    by (simp_all add: shouldTryGz_iff endsWith_def)
  have m: "getMimeType_old ?p = ''application/json; charset=utf-8''"
          "getMimeType_new ?k = ''application/json''"
    using c(3) by (simp_all add: getMimeType_old_json getMimeType_new_def endsWith_def)
  have s: "httpEtag ?plain = ''e6''" "obody ?plain = ''[]''"
          "httpEtag ?comp = ''e6''" "obody ?comp = ''gz''"
    by (simp_all add: stored_def)
  have v: "validatorMatches ?rq ob = False" for ob by simp
  have boh: "BUCKET ?oh ?p = Some ?plain \<and> (shouldTryGz ?p \<longrightarrow> BUCKET ?oh (?p @ ''.gz'') = None)"
    and bog: "BUCKET ?og (?p @ ''.gz'') = Some ?comp \<and>
              (shouldTryGz ?p \<or> (BUCKET ?og ?p = None \<and> \<not> endsWith ?p ''.gz''))"
    and bom: "BUCKET ?om ?p = None \<and> (\<not> endsWith ?p ''.gz'' \<longrightarrow> BUCKET ?om (?p @ ''.gz'') = None)"
    using c(1,2) by (simp_all add: bucketEnv_def)
  have bnh: "BUCKET ?nh ?k = Some ?plain \<and>
             (endsWith ?k ''.prbm'' \<or> endsWith ?k ''textures.json''
                \<or> endsWith ?k ''settings.json'' \<longrightarrow> BUCKET ?nh (?k @ ''.gz'') = None)"
    and bng: "BUCKET ?ng (?k @ ''.gz'') = Some ?comp \<and>
             ((endsWith ?k ''.prbm'' \<or> endsWith ?k ''textures.json''
                \<or> endsWith ?k ''settings.json'')
              \<or> (BUCKET ?ng ?k = None \<and> \<not> endsWith ?k ''.gz''))"
    and bnm: "BUCKET ?nm ?k = None \<and> (\<not> endsWith ?k ''.gz'' \<longrightarrow> BUCKET ?nm (?k @ ''.gz'') = None)"
    using c(4,5) by (simp_all add: bucketEnv_def)
  note oh = live_unconfigured_served_from_store
              [where env = ?oh and pf = plainPlatform and request = ?rq and path = ?p
                 and object = ?plain, OF off(1), THEN conjunct1, THEN mp, OF lo]
  note og = live_unconfigured_served_from_store
              [where env = ?og and pf = plainPlatform and request = ?rq and path = ?p
                 and object = ?comp, OF off(1), THEN conjunct1, THEN mp, OF lo]
  note om = live_unconfigured_served_from_store
              [where env = ?om and pf = plainPlatform and request = ?rq and path = ?p
                 and object = ?plain, OF off(1), THEN conjunct1, THEN mp, OF lo]
  note nh = live_unconfigured_served_from_store
              [where env = ?nh and pf = plainPlatform and request = ?rq and path = ?p
                 and object = ?plain, OF off(2), THEN conjunct2, THEN mp, OF ln, unfolded d]
  note ng = live_unconfigured_served_from_store
              [where env = ?ng and pf = plainPlatform and request = ?rq and path = ?p
                 and object = ?comp, OF off(2), THEN conjunct2, THEN mp, OF ln, unfolded d]
  note nm = live_unconfigured_served_from_store
              [where env = ?nm and pf = plainPlatform and request = ?rq and path = ?p
                 and object = ?plain, OF off(2), THEN conjunct2, THEN mp, OF ln, unfolded d]
  have o1: "networkCalls (fst (fetch_old plainPlatform ?rq ?oh)) = []"
    by (rule oh [THEN conjunct1])
  have o2: "snd (fetch_old plainPlatform ?rq ?oh) =
       Inr \<lparr>status = 200,
            hdrs = [(''content-type'', ''application/json; charset=utf-8''), (''etag'', ''e6''),
                    (''cache-control'', ''public, max-age=86400''),
                    (''access-control-allow-origin'', ''*'')],
            body = BStream ''[]'', encodeBody = Automatic\<rparr>"
    using oh [THEN conjunct2, THEN conjunct2, THEN conjunct2, THEN conjunct1, THEN mp, OF boh]
    by (simp only: v m s if_False)
  have o3: "snd (fetch_old plainPlatform ?rq ?og) =
       Inr \<lparr>status = 200,
            hdrs = [(''content-type'', ''application/json; charset=utf-8''), (''etag'', ''e6''),
                    (''cache-control'', ''public, max-age=86400''),
                    (''access-control-allow-origin'', ''*''),
                    (''content-encoding'', ''gzip'')],
            body = BStream ''gz'', encodeBody = Automatic\<rparr>"
    using og [THEN conjunct2, THEN conjunct2, THEN conjunct2, THEN conjunct2, THEN mp, OF bog]
    by (simp only: v m s if_False)
  have o4: "snd (fetch_old plainPlatform ?rq ?om) =
       Inr \<lparr>status = 404,
            hdrs = [(''access-control-allow-origin'', ''*''),
                    (''content-type'', ''text/plain;charset=UTF-8'')],
            body = BText ''Not Found'', encodeBody = Automatic\<rparr>"
    by (rule om [THEN conjunct2, THEN conjunct2, THEN conjunct1, THEN mp, OF bom])
  have n1: "networkCalls (fst (fetch_new plainPlatform ?rq ?nh)) = []"
    by (rule nh [THEN conjunct1])
  have n2: "snd (fetch_new plainPlatform ?rq ?nh) =
       Inr \<lparr>status = 200,
            hdrs = [(''content-type'', ''application/json''), (''etag'', ''e6''),
                    (''cache-control'', ''public, max-age=86400''),
                    (''access-control-allow-origin'', ''*'')],
            body = BStream ''[]'', encodeBody = Automatic\<rparr>"
    using nh [THEN conjunct2, THEN conjunct2, THEN conjunct2, THEN conjunct1, THEN mp, OF bnh]
    by (simp only: v m s if_False)
  have n3: "snd (fetch_new plainPlatform ?rq ?ng) =
       Inr \<lparr>status = 200,
            hdrs = [(''content-type'', ''application/json''), (''content-encoding'', ''gzip''),
                    (''etag'', ''e6''),
                    (''cache-control'', ''public, max-age=86400''),
                    (''access-control-allow-origin'', ''*'')],
            body = BStream ''gz'', encodeBody = Manual\<rparr>"
    using ng [THEN conjunct2, THEN conjunct2, THEN conjunct2, THEN conjunct2, THEN mp, OF bng]
    by (simp only: v m s if_False)
  have n4: "snd (fetch_new plainPlatform ?rq ?nm) =
       Inr \<lparr>status = 404, hdrs = [(''access-control-allow-origin'', ''*'')],
            body = BNull, encodeBody = Automatic\<rparr>"
    by (rule nm [THEN conjunct2, THEN conjunct2, THEN conjunct1, THEN mp, OF bnm])
  from o1 o2 o3 o4 n1 n2 n3 n4 show ?thesis by (intro conjI)
qed

subsection \<open>C5: A live path with an origin\<close>

text \<open>
  C5, as the claim states it, fails on the older version: it relays the origin's
  \<^verbatim>\<open>Cache-Control\<close> as it came.
\<close>

theorem live_proxy_counterexample:
  "fetch_old livePlatform (req ''GET'' ''/maps/world/live/players.json'' [])
     (bucketEnv Map.empty (Some ''http://mc:8100/'')) =
     ([OriginFetch ''http://mc:8100/maps/world/live/players.json'' ''GET'' []],
      Inr \<lparr>status = 200,
           hdrs = [(''content-type'', ''application/json''), (''cache-control'', ''no-store''),
                   (''access-control-allow-origin'', ''*'')],
           body = BStream ''{players:[]}'', encodeBody = Automatic\<rparr>)"
proof -
  let ?rq = "req ''GET'' ''/maps/world/live/players.json'' []"
  let ?e = "bucketEnv Map.empty (Some ''http://mc:8100/'')"
  have l: "liveRequest_old livePlatform ?rq ''maps/world/live/players.json''"
    by (simp add: run_simps)
  have t: "truthy (LIVE_SERVER_ORIGIN ?e)" by (simp add: bucketEnv_def truthy_def)
  have u: "stripTrailingSlashes (the (LIVE_SERVER_ORIGIN ?e)) = ''http://mc:8100''"
    by (simp add: bucketEnv_def stripTrailingSlashes_def)
  have v: "urlValid livePlatform url" for url by (simp add: livePlatform_def)
  show ?thesis
    unfolding fetch_old_live [OF l t v] u
    by (simp add: livePlatform_def originAnswer_def req_def headers_set_def)
qed

text \<open>
  C5, amended. A \<^verbatim>\<open>GET\<close> or \<^verbatim>\<open>HEAD\<close> for a live path while an origin is configured makes
  one call to the origin, for the path under the origin's address, and no access to the
  bucket (in the older version provided that the \<^verbatim>\<open>Request\<close> constructor, which it calls
  outside its \<^verbatim>\<open>try\<close>, accepts that url). When the origin answers, its status and body are
  relayed and the CORS header is set; the newer version also sets \<^verbatim>\<open>Cache-Control\<close> to \<^verbatim>\<open>public, max-age=5\<close> whatever the
  origin sent, the older version relays the origin's \<^verbatim>\<open>Cache-Control\<close>; every other header
  is the origin's. When the call fails the answer is status 502, after that one call.
\<close>

theorem live_proxy_relay:
  assumes on: "truthy (LIVE_SERVER_ORIGIN env)"
  shows "(liveRequest_old pf request path \<and>
          urlValid pf (stripTrailingSlashes (the (LIVE_SERVER_ORIGIN env)) @ ''/'' @ path) \<longrightarrow>
            (let url = stripTrailingSlashes (the (LIVE_SERVER_ORIGIN env)) @ ''/'' @ path;
                 sent = reqHeaders request
             in fst (fetch_old pf request env) = [OriginFetch url (rmethod request) sent] \<and>
                (\<forall>proxyRes. originFetch pf url (rmethod request) sent = Inr proxyRes \<longrightarrow>
                   (\<exists>res. snd (fetch_old pf request env) = Inr res \<and>
                      status res = pstatus proxyRes \<and> body res = pbody proxyRes \<and>
                      headers_get (hdrs res) ''Access-Control-Allow-Origin'' = Some ''*'' \<and>
                      (\<forall>n. toLowerCase n \<noteq> ''access-control-allow-origin'' \<longrightarrow>
                         headers_get (hdrs res) n = headers_get (pheaders proxyRes) n))) \<and>
                (\<forall>err. originFetch pf url (rmethod request) sent = Inl err \<longrightarrow>
                   snd (fetch_old pf request env) =
                     Inr \<lparr>status = 502,
                          hdrs = [(''content-type'', ''text/plain;charset=UTF-8'')],
                          body = BText ''Live server unavailable'',
                          encodeBody = Automatic\<rparr>)))
       \<and> (liveRequest_new pf request path \<longrightarrow>
            (let url = stripTrailingSlashes (the (LIVE_SERVER_ORIGIN env)) @ ''/'' @ path;
                 sent = probeHeaders (case headers_get (reqHeaders request) ''Accept'' of
                                        Some a \<Rightarrow> a | None \<Rightarrow> ''*/*'')
             in fst (fetch_new pf request env) = [OriginFetch url (rmethod request) sent] \<and>
                (\<forall>proxyRes. originFetch pf url (rmethod request) sent = Inr proxyRes \<longrightarrow>
                   (\<exists>res. snd (fetch_new pf request env) = Inr res \<and>
                      status res = pstatus proxyRes \<and> body res = pbody proxyRes \<and>
                      headers_get (hdrs res) ''Cache-Control'' = Some ''public, max-age=5'' \<and>
                      headers_get (hdrs res) ''Access-Control-Allow-Origin'' = Some ''*'' \<and>
                      (\<forall>n. toLowerCase n \<noteq> ''access-control-allow-origin'' \<and>
                           toLowerCase n \<noteq> ''cache-control'' \<longrightarrow>
                         headers_get (hdrs res) n = headers_get (pheaders proxyRes) n))) \<and>
                (\<forall>err. originFetch pf url (rmethod request) sent = Inl err \<longrightarrow>
                   snd (fetch_new pf request env) =
                     Inr \<lparr>status = 502,
                          hdrs = [(''access-control-allow-origin'', ''*'')],
                          body = BNull, encodeBody = Automatic\<rparr>)))"
proof (intro conjI impI)
  assume "liveRequest_old pf request path \<and>
          urlValid pf (stripTrailingSlashes (the (LIVE_SERVER_ORIGIN env)) @ ''/'' @ path)"
  then have l: "liveRequest_old pf request path"
    and v: "urlValid pf (stripTrailingSlashes (the (LIVE_SERVER_ORIGIN env)) @ ''/'' @ path)"
    by simp_all
  show "let url = stripTrailingSlashes (the (LIVE_SERVER_ORIGIN env)) @ ''/'' @ path;
            sent = reqHeaders request
        in fst (fetch_old pf request env) = [OriginFetch url (rmethod request) sent] \<and>
           (\<forall>proxyRes. originFetch pf url (rmethod request) sent = Inr proxyRes \<longrightarrow>
              (\<exists>res. snd (fetch_old pf request env) = Inr res \<and>
                 status res = pstatus proxyRes \<and> body res = pbody proxyRes \<and>
                 headers_get (hdrs res) ''Access-Control-Allow-Origin'' = Some ''*'' \<and>
                 (\<forall>n. toLowerCase n \<noteq> ''access-control-allow-origin'' \<longrightarrow>
                    headers_get (hdrs res) n = headers_get (pheaders proxyRes) n))) \<and>
           (\<forall>err. originFetch pf url (rmethod request) sent = Inl err \<longrightarrow>
              snd (fetch_old pf request env) =
                     Inr \<lparr>status = 502,
                          hdrs = [(''content-type'', ''text/plain;charset=UTF-8'')],
                          body = BText ''Live server unavailable'',
                          encodeBody = Automatic\<rparr>)"
    unfolding fetch_old_live [OF l on v]
    by (auto simp: Let_def headers_get_set newResponse_text_nil)
next
  assume l: "liveRequest_new pf request path"
  show "let url = stripTrailingSlashes (the (LIVE_SERVER_ORIGIN env)) @ ''/'' @ path;
            sent = probeHeaders (case headers_get (reqHeaders request) ''Accept'' of
                                   Some a \<Rightarrow> a | None \<Rightarrow> ''*/*'')
        in fst (fetch_new pf request env) = [OriginFetch url (rmethod request) sent] \<and>
           (\<forall>proxyRes. originFetch pf url (rmethod request) sent = Inr proxyRes \<longrightarrow>
              (\<exists>res. snd (fetch_new pf request env) = Inr res \<and>
                 status res = pstatus proxyRes \<and> body res = pbody proxyRes \<and>
                 headers_get (hdrs res) ''Cache-Control'' = Some ''public, max-age=5'' \<and>
                 headers_get (hdrs res) ''Access-Control-Allow-Origin'' = Some ''*'' \<and>
                 (\<forall>n. toLowerCase n \<noteq> ''access-control-allow-origin'' \<and>
                      toLowerCase n \<noteq> ''cache-control'' \<longrightarrow>
                    headers_get (hdrs res) n = headers_get (pheaders proxyRes) n))) \<and>
           (\<forall>err. originFetch pf url (rmethod request) sent = Inl err \<longrightarrow>
              snd (fetch_new pf request env) =
                Inr \<lparr>status = 502,
                     hdrs = [(''access-control-allow-origin'', ''*'')],
                     body = BNull, encodeBody = Automatic\<rparr>)"
    unfolding fetch_new_live [OF l on]
    by (auto simp: Let_def headers_get_set emptyResponse_def)
qed

theorem live_proxy_relay_witness:
  "fst (fetch_new livePlatform (req ''GET'' ''/maps/world/live/players.json'' [])
          (bucketEnv Map.empty (Some ''http://mc:8100/''))) =
     [OriginFetch ''http://mc:8100/maps/world/live/players.json'' ''GET''
        (probeHeaders ''*/*'')]
   \<and> (\<exists>res. snd (fetch_new livePlatform (req ''GET'' ''/maps/world/live/players.json'' [])
                   (bucketEnv Map.empty (Some ''http://mc:8100/''))) = Inr res \<and>
          status res = 200 \<and> body res = BStream ''{players:[]}'' \<and>
          headers_get (hdrs res) ''Cache-Control'' = Some ''public, max-age=5'' \<and>
          headers_get (hdrs res) ''Access-Control-Allow-Origin'' = Some ''*'')
   \<and> snd (fetch_new plainPlatform (req ''GET'' ''/maps/world/live/players.json'' [])
            (bucketEnv Map.empty (Some ''http://mc:8100/''))) =
       Inr \<lparr>status = 502, hdrs = [(''access-control-allow-origin'', ''*'')],
            body = BNull, encodeBody = Automatic\<rparr>
   \<and> (\<exists>res. snd (fetch_old livePlatform (req ''GET'' ''/maps/world/live/players.json'' [])
                   (bucketEnv Map.empty (Some ''http://mc:8100/''))) = Inr res \<and>
          status res = 200 \<and> body res = BStream ''{players:[]}'' \<and>
          headers_get (hdrs res) ''Access-Control-Allow-Origin'' = Some ''*'')
   \<and> snd (fetch_old plainPlatform (req ''GET'' ''/maps/world/live/players.json'' [])
            (bucketEnv Map.empty (Some ''http://mc:8100/''))) =
       Inr \<lparr>status = 502, hdrs = [(''content-type'', ''text/plain;charset=UTF-8'')],
            body = BText ''Live server unavailable'', encodeBody = Automatic\<rparr>"
proof -
  let ?rq = "req ''GET'' ''/maps/world/live/players.json'' []"
  let ?e = "bucketEnv Map.empty (Some ''http://mc:8100/'')"
  let ?p = "''maps/world/live/players.json''"
  have t: "truthy (LIVE_SERVER_ORIGIN ?e)" by (simp add: bucketEnv_def truthy_def)
  have u: "stripTrailingSlashes (the (LIVE_SERVER_ORIGIN ?e)) @ ''/'' @ ?p
             = ''http://mc:8100/maps/world/live/players.json''"
    by (simp add: bucketEnv_def stripTrailingSlashes_def)
  have a: "(case headers_get (reqHeaders ?rq) ''Accept'' of Some a \<Rightarrow> a | None \<Rightarrow> ''*/*'') = ''*/*''"
    by (simp add: req_def headers_get_def)
  have lo: "liveRequest_old livePlatform ?rq ?p" "liveRequest_old plainPlatform ?rq ?p"
    and ln: "liveRequest_new livePlatform ?rq ?p" "liveRequest_new plainPlatform ?rq ?p"
    by (simp_all add: run_simps)
  have v: "urlValid livePlatform url" "urlValid plainPlatform url" for url
    by (simp_all add: livePlatform_def plainPlatform_def)
  have ok: "originFetch livePlatform url m hs = Inr originAnswer"
    and ko: "originFetch plainPlatform url m hs = Inl ''connection refused''" for url m hs
    by (simp_all add: livePlatform_def plainPlatform_def)
  note n1 = live_proxy_relay [OF t, of livePlatform ?rq ?p, THEN conjunct2, THEN mp, OF ln(1),
                              unfolded Let_def u a]
  note n2 = live_proxy_relay [OF t, of plainPlatform ?rq ?p, THEN conjunct2, THEN mp, OF ln(2),
                              unfolded Let_def u a]
  note o1 = live_proxy_relay [OF t, of livePlatform ?rq ?p, THEN conjunct1, THEN mp,
                              OF conjI [OF lo(1) v(1)], unfolded Let_def u]
  note o2 = live_proxy_relay [OF t, of plainPlatform ?rq ?p, THEN conjunct1, THEN mp,
                              OF conjI [OF lo(2) v(2)], unfolded Let_def u]
  have s: "pstatus originAnswer = 200" "pbody originAnswer = BStream ''{players:[]}''"
    by (simp_all add: originAnswer_def)
  from n1 have c1: "fst (fetch_new livePlatform ?rq ?e) =
       [OriginFetch ''http://mc:8100/maps/world/live/players.json'' ''GET'' (probeHeaders ''*/*'')]"
    by (simp add: req_def)
  from n1 [THEN conjunct2, THEN conjunct1, rule_format, OF ok] s
  have c2: "\<exists>res. snd (fetch_new livePlatform ?rq ?e) = Inr res \<and>
          status res = 200 \<and> body res = BStream ''{players:[]}'' \<and>
          headers_get (hdrs res) ''Cache-Control'' = Some ''public, max-age=5'' \<and>
          headers_get (hdrs res) ''Access-Control-Allow-Origin'' = Some ''*''"
    by (elim exE conjE, intro exI conjI) simp_all
  from n2 [THEN conjunct2, THEN conjunct2, rule_format, OF ko]
  have c3: "snd (fetch_new plainPlatform ?rq ?e) =
       Inr \<lparr>status = 502, hdrs = [(''access-control-allow-origin'', ''*'')],
            body = BNull, encodeBody = Automatic\<rparr>" .
  from o1 [THEN conjunct2, THEN conjunct1, rule_format, OF ok] s
  have c4: "\<exists>res. snd (fetch_old livePlatform ?rq ?e) = Inr res \<and>
          status res = 200 \<and> body res = BStream ''{players:[]}'' \<and>
          headers_get (hdrs res) ''Access-Control-Allow-Origin'' = Some ''*''"
    by (elim exE conjE, intro exI conjI) simp_all
  from o2 [THEN conjunct2, THEN conjunct2, rule_format, OF ko]
  have c5: "snd (fetch_old plainPlatform ?rq ?e) =
       Inr \<lparr>status = 502, hdrs = [(''content-type'', ''text/plain;charset=UTF-8'')],
            body = BText ''Live server unavailable'', encodeBody = Automatic\<rparr>" .
  from c1 c2 c3 c4 c5 show ?thesis by (intro conjI)
qed

subsection \<open>C6: The CORS header on error answers\<close>

text \<open>
  C6 fails on the code. The answer to an unsupported method is built without headers in
  both versions, so it carries no CORS header; the same holds for the older version's 502.
  The runs below are a \<^verbatim>\<open>POST\<close>, and a live path whose origin cannot be reached.
\<close>

theorem error_responses_without_cors:
  "fetch_new plainPlatform (req ''POST'' ''/maps/world/textures.json'' [])
     (bucketEnv Map.empty None) =
     ([], Inr \<lparr>status = 405, hdrs = [(''content-type'', ''text/plain;charset=UTF-8'')],
               body = BText ''Method Not Allowed'', encodeBody = Automatic\<rparr>)
   \<and> fetch_old plainPlatform (req ''POST'' ''/maps/world/textures.json'' [])
     (bucketEnv Map.empty None) =
     ([], Inr \<lparr>status = 405, hdrs = [(''content-type'', ''text/plain;charset=UTF-8'')],
               body = BText ''Method Not Allowed'', encodeBody = Automatic\<rparr>)
   \<and> fetch_old plainPlatform (req ''GET'' ''/maps/world/live/players.json'' [])
     (bucketEnv Map.empty (Some ''http://mc:8100'')) =
     ([OriginFetch ''http://mc:8100/maps/world/live/players.json'' ''GET'' []],
      Inr \<lparr>status = 502, hdrs = [(''content-type'', ''text/plain;charset=UTF-8'')],
           body = BText ''Live server unavailable'', encodeBody = Automatic\<rparr>)
   \<and> headers_get [(''content-type'', ''text/plain;charset=UTF-8'')]
         ''Access-Control-Allow-Origin'' = None"
proof -
  let ?post = "req ''POST'' ''/maps/world/textures.json'' []"
  let ?live = "req ''GET'' ''/maps/world/live/players.json'' []"
  let ?e = "bucketEnv Map.empty (Some ''http://mc:8100'')"
  have m: "rmethod ?post \<noteq> ''OPTIONS''" "rmethod ?post \<noteq> ''GET''" "rmethod ?post \<noteq> ''HEAD''"
    and p: "pathname ?post \<noteq> ''/debug/live''" "pathname ?post \<noteq> ''/debug''"
    and d: "decodeURIComponent plainPlatform (pathname ?post) = Some (pathname ?post)"
    by (simp_all add: req_def plainPlatform_def)
  have l: "liveRequest_old plainPlatform ?live ''maps/world/live/players.json''"
    by (simp add: run_simps)
  have t: "truthy (LIVE_SERVER_ORIGIN ?e)" by (simp add: bucketEnv_def truthy_def)
  have u: "stripTrailingSlashes (the (LIVE_SERVER_ORIGIN ?e)) = ''http://mc:8100''"
    by (simp add: bucketEnv_def stripTrailingSlashes_def)
  have v: "urlValid plainPlatform url" for url by (simp add: plainPlatform_def)
  have c: "fetch_old plainPlatform ?live ?e =
     ([OriginFetch ''http://mc:8100/maps/world/live/players.json'' ''GET'' []],
      Inr \<lparr>status = 502, hdrs = [(''content-type'', ''text/plain;charset=UTF-8'')],
           body = BText ''Live server unavailable'', encodeBody = Automatic\<rparr>)"
    unfolding fetch_old_live [OF l t v] u
    by (simp add: plainPlatform_def req_def newResponse_text_nil)
  show ?thesis
    unfolding fetch_new_other_method [OF m p] fetch_old_other_method [OF m d]
      methodNotAllowed_eq c
    by (simp add: headers_get_def)
qed

subsection \<open>C7: Conditional requests\<close>

text \<open>
  C7. A \<^verbatim>\<open>GET\<close> or \<^verbatim>\<open>HEAD\<close> that reaches the bucket and whose \<^verbatim>\<open>If-None-Match\<close> is the ETag
  of the stored object that the lookup finds: the answer is status 304 with no body, and
  its headers are those of the status 200 answer that the same request without the
  validator gets, after the same lookups. This holds for the plain candidate (the plain
  object is there and the compressed one, if it is tried first, is not) and for the
  compressed candidate (the compressed object is there and is tried first, or the plain
  one is absent), whose headers include \<^verbatim>\<open>Content-Encoding: gzip\<close>. Both versions. The ETag
  is not empty, as no ETag of the bucket is.
\<close>

theorem conditional_request_not_modified:
  assumes inm: "headers_get (reqHeaders request) ''If-None-Match'' = Some (httpEtag object)"
    and ne: "httpEtag object \<noteq> []"
    and bare: "headers_get hs ''If-None-Match'' = None"
  shows "(routesToStore_old pf request env key \<longrightarrow>
            (BUCKET env key = Some object \<and>
             (shouldTryGz key \<longrightarrow> BUCKET env (key @ ''.gz'') = None) \<longrightarrow>
               fetch_old pf request env =
                 (if shouldTryGz key then [BucketGet (key @ ''.gz''), BucketGet key]
                  else [BucketGet key],
                  Inr \<lparr>status = 304,
                       hdrs = [(''content-type'', getMimeType_old key),
                               (''etag'', httpEtag object),
                               (''cache-control'', ''public, max-age=86400''),
                               (''access-control-allow-origin'', ''*'')],
                       body = BNull, encodeBody = Automatic\<rparr>) \<and>
               fetch_old pf (request\<lparr>reqHeaders := hs\<rparr>) env =
                 (if shouldTryGz key then [BucketGet (key @ ''.gz''), BucketGet key]
                  else [BucketGet key],
                  Inr \<lparr>status = 200,
                       hdrs = [(''content-type'', getMimeType_old key),
                               (''etag'', httpEtag object),
                               (''cache-control'', ''public, max-age=86400''),
                               (''access-control-allow-origin'', ''*'')],
                       body = BStream (obody object), encodeBody = Automatic\<rparr>)) \<and>
            (BUCKET env (key @ ''.gz'') = Some object \<and>
             (shouldTryGz key \<or> (BUCKET env key = None \<and> \<not> endsWith key ''.gz'')) \<longrightarrow>
               fetch_old pf request env =
                 (if shouldTryGz key then [BucketGet (key @ ''.gz'')]
                  else [BucketGet key, BucketGet (key @ ''.gz'')],
                  Inr \<lparr>status = 304,
                       hdrs = [(''content-type'', getMimeType_old key),
                               (''etag'', httpEtag object),
                               (''cache-control'', ''public, max-age=86400''),
                               (''access-control-allow-origin'', ''*''),
                               (''content-encoding'', ''gzip'')],
                       body = BNull, encodeBody = Automatic\<rparr>) \<and>
               fetch_old pf (request\<lparr>reqHeaders := hs\<rparr>) env =
                 (if shouldTryGz key then [BucketGet (key @ ''.gz'')]
                  else [BucketGet key, BucketGet (key @ ''.gz'')],
                  Inr \<lparr>status = 200,
                       hdrs = [(''content-type'', getMimeType_old key),
                               (''etag'', httpEtag object),
                               (''cache-control'', ''public, max-age=86400''),
                               (''access-control-allow-origin'', ''*''),
                               (''content-encoding'', ''gzip'')],
                       body = BStream (obody object), encodeBody = Automatic\<rparr>)))
       \<and> (routesToStore_new pf request env key \<longrightarrow>
            (BUCKET env key = Some object \<and>
             (endsWith key ''.prbm'' \<or> endsWith key ''textures.json''
                \<or> endsWith key ''settings.json'' \<longrightarrow> BUCKET env (key @ ''.gz'') = None) \<longrightarrow>
               fetch_new pf request env =
                 (if endsWith key ''.prbm'' \<or> endsWith key ''textures.json''
                     \<or> endsWith key ''settings.json''
                  then [BucketGet (key @ ''.gz''), BucketGet key] else [BucketGet key],
                  Inr \<lparr>status = 304,
                       hdrs = [(''content-type'', getMimeType_new key),
                               (''etag'', httpEtag object),
                               (''cache-control'', ''public, max-age=86400''),
                               (''access-control-allow-origin'', ''*'')],
                       body = BNull, encodeBody = Automatic\<rparr>) \<and>
               fetch_new pf (request\<lparr>reqHeaders := hs\<rparr>) env =
                 (if endsWith key ''.prbm'' \<or> endsWith key ''textures.json''
                     \<or> endsWith key ''settings.json''
                  then [BucketGet (key @ ''.gz''), BucketGet key] else [BucketGet key],
                  Inr \<lparr>status = 200,
                       hdrs = [(''content-type'', getMimeType_new key),
                               (''etag'', httpEtag object),
                               (''cache-control'', ''public, max-age=86400''),
                               (''access-control-allow-origin'', ''*'')],
                       body = BStream (obody object), encodeBody = Automatic\<rparr>)) \<and>
            (BUCKET env (key @ ''.gz'') = Some object \<and>
             ((endsWith key ''.prbm'' \<or> endsWith key ''textures.json''
                 \<or> endsWith key ''settings.json'')
              \<or> (BUCKET env key = None \<and> \<not> endsWith key ''.gz'')) \<longrightarrow>
               fetch_new pf request env =
                 (if endsWith key ''.prbm'' \<or> endsWith key ''textures.json''
                     \<or> endsWith key ''settings.json''
                  then [BucketGet (key @ ''.gz'')] else [BucketGet key, BucketGet (key @ ''.gz'')],
                  Inr \<lparr>status = 304,
                       hdrs = [(''content-type'', getMimeType_new key),
                               (''content-encoding'', ''gzip''),
                               (''etag'', httpEtag object),
                               (''cache-control'', ''public, max-age=86400''),
                               (''access-control-allow-origin'', ''*'')],
                       body = BNull, encodeBody = Automatic\<rparr>) \<and>
               fetch_new pf (request\<lparr>reqHeaders := hs\<rparr>) env =
                 (if endsWith key ''.prbm'' \<or> endsWith key ''textures.json''
                     \<or> endsWith key ''settings.json''
                  then [BucketGet (key @ ''.gz'')] else [BucketGet key, BucketGet (key @ ''.gz'')],
                  Inr \<lparr>status = 200,
                       hdrs = [(''content-type'', getMimeType_new key),
                               (''content-encoding'', ''gzip''),
                               (''etag'', httpEtag object),
                               (''cache-control'', ''public, max-age=86400''),
                               (''access-control-allow-origin'', ''*'')],
                       body = BStream (obody object), encodeBody = Manual\<rparr>)))"
proof -
  let ?bare = "request\<lparr>reqHeaders := hs\<rparr>"
  have v: "validatorMatches request object"
    using inm ne by (rule validator_matches_stored)
  have w: "\<not> validatorMatches ?bare object"
    using bare by (rule validator_absent)
  show ?thesis
  proof (intro conjI impI, goal_cases)
    case 1
    show ?case unfolding fetch_old_plain_served [OF 1] using v by simp
  next
    case 2
    from 2(1) have "routesToStore_old pf ?bare env key" by (simp add: routesToStore_old_headers)
    from fetch_old_plain_served [OF this 2(2)] show ?case using w by simp
  next
    case 3
    show ?case unfolding fetch_old_gz_served [OF 3] using v by simp
  next
    case 4
    from 4(1) have "routesToStore_old pf ?bare env key" by (simp add: routesToStore_old_headers)
    from fetch_old_gz_served [OF this 4(2)] show ?case using w by simp
  next
    case 5
    show ?case unfolding fetch_new_plain_served [OF 5] using v by simp
  next
    case 6
    from 6(1) have "routesToStore_new pf ?bare env key" by (simp add: routesToStore_new_headers)
    from fetch_new_plain_served [OF this 6(2)] show ?case using w by simp
  next
    case 7
    show ?case unfolding fetch_new_gz_served [OF 7] using v by simp
  next
    case 8
    from 8(1) have "routesToStore_new pf ?bare env key" by (simp add: routesToStore_new_headers)
    from fetch_new_gz_served [OF this 8(2)] show ?case using w by simp
  qed
qed

theorem conditional_request_not_modified_witness:
  "fetch_old plainPlatform (req ''GET'' ''/maps/world/textures.json'' [(''if-none-match'', ''e1'')])
       (bucketEnv [''maps/world/textures.json'' \<mapsto> stored ''e1'' ''{}''] None) =
       ([BucketGet ''maps/world/textures.json.gz'', BucketGet ''maps/world/textures.json''],
        Inr \<lparr>status = 304,
             hdrs = [(''content-type'', ''application/json; charset=utf-8''),
                 (''etag'', ''e1''),
                 (''cache-control'', ''public, max-age=86400''),
                 (''access-control-allow-origin'', ''*'')],
             body = BNull, encodeBody = Automatic\<rparr>)
   \<and> fetch_old plainPlatform (req ''GET'' ''/maps/world/textures.json'' [])
       (bucketEnv [''maps/world/textures.json'' \<mapsto> stored ''e1'' ''{}''] None) =
       ([BucketGet ''maps/world/textures.json.gz'', BucketGet ''maps/world/textures.json''],
        Inr \<lparr>status = 200,
             hdrs = [(''content-type'', ''application/json; charset=utf-8''),
                 (''etag'', ''e1''),
                 (''cache-control'', ''public, max-age=86400''),
                 (''access-control-allow-origin'', ''*'')],
             body = BStream ''{}'', encodeBody = Automatic\<rparr>)
   \<and> fetch_old plainPlatform (req ''GET'' ''/maps/world/textures.json'' [(''if-none-match'', ''e1'')])
       (bucketEnv [''maps/world/textures.json.gz'' \<mapsto> stored ''e1'' ''gz''] None) =
       ([BucketGet ''maps/world/textures.json.gz''],
        Inr \<lparr>status = 304,
             hdrs = [(''content-type'', ''application/json; charset=utf-8''),
                 (''etag'', ''e1''),
                 (''cache-control'', ''public, max-age=86400''),
                 (''access-control-allow-origin'', ''*''),
                 (''content-encoding'', ''gzip'')],
             body = BNull, encodeBody = Automatic\<rparr>)
   \<and> fetch_old plainPlatform (req ''GET'' ''/maps/world/textures.json'' [])
       (bucketEnv [''maps/world/textures.json.gz'' \<mapsto> stored ''e1'' ''gz''] None) =
       ([BucketGet ''maps/world/textures.json.gz''],
        Inr \<lparr>status = 200,
             hdrs = [(''content-type'', ''application/json; charset=utf-8''),
                 (''etag'', ''e1''),
                 (''cache-control'', ''public, max-age=86400''),
                 (''access-control-allow-origin'', ''*''),
                 (''content-encoding'', ''gzip'')],
             body = BStream ''gz'', encodeBody = Automatic\<rparr>)
   \<and> fetch_new plainPlatform (req ''GET'' ''/maps/world/textures.json'' [(''if-none-match'', ''e1'')])
       (bucketEnv [''world/textures.json'' \<mapsto> stored ''e1'' ''{}''] None) =
       ([BucketGet ''world/textures.json.gz'', BucketGet ''world/textures.json''],
        Inr \<lparr>status = 304,
             hdrs = [(''content-type'', ''application/json''),
                 (''etag'', ''e1''),
                 (''cache-control'', ''public, max-age=86400''),
                 (''access-control-allow-origin'', ''*'')],
             body = BNull, encodeBody = Automatic\<rparr>)
   \<and> fetch_new plainPlatform (req ''GET'' ''/maps/world/textures.json'' [])
       (bucketEnv [''world/textures.json'' \<mapsto> stored ''e1'' ''{}''] None) =
       ([BucketGet ''world/textures.json.gz'', BucketGet ''world/textures.json''],
        Inr \<lparr>status = 200,
             hdrs = [(''content-type'', ''application/json''),
                 (''etag'', ''e1''),
                 (''cache-control'', ''public, max-age=86400''),
                 (''access-control-allow-origin'', ''*'')],
             body = BStream ''{}'', encodeBody = Automatic\<rparr>)
   \<and> fetch_new plainPlatform (req ''GET'' ''/maps/world/textures.json'' [(''if-none-match'', ''e1'')])
       (bucketEnv [''world/textures.json.gz'' \<mapsto> stored ''e1'' ''gz''] None) =
       ([BucketGet ''world/textures.json.gz''],
        Inr \<lparr>status = 304,
             hdrs = [(''content-type'', ''application/json''),
                 (''content-encoding'', ''gzip''),
                 (''etag'', ''e1''),
                 (''cache-control'', ''public, max-age=86400''),
                 (''access-control-allow-origin'', ''*'')],
             body = BNull, encodeBody = Automatic\<rparr>)
   \<and> fetch_new plainPlatform (req ''GET'' ''/maps/world/textures.json'' [])
       (bucketEnv [''world/textures.json.gz'' \<mapsto> stored ''e1'' ''gz''] None) =
       ([BucketGet ''world/textures.json.gz''],
        Inr \<lparr>status = 200,
             hdrs = [(''content-type'', ''application/json''),
                 (''content-encoding'', ''gzip''),
                 (''etag'', ''e1''),
                 (''cache-control'', ''public, max-age=86400''),
                 (''access-control-allow-origin'', ''*'')],
             body = BStream ''gz'', encodeBody = Manual\<rparr>)"
proof -
  let ?rq = "req ''GET'' ''/maps/world/textures.json'' [(''if-none-match'', ''e1'')]"
  let ?bare = "req ''GET'' ''/maps/world/textures.json'' []"
  let ?ko = "''maps/world/textures.json''"
  let ?kn = "''world/textures.json''"
  have q: "?rq\<lparr>reqHeaders := []\<rparr> = ?bare" by (simp add: req_def)
  have bare: "headers_get [] ''If-None-Match'' = None" by (simp add: headers_get_def)
  have inm: "headers_get (reqHeaders ?rq) ''If-None-Match'' = Some (httpEtag (stored ''e1'' b))" for b
    by (simp add: req_def headers_get_def stored_def)
  have ne: "httpEtag (stored ''e1'' b) \<noteq> []" for b by (simp add: stored_def)
  have s: "httpEtag (stored e b) = e" "obody (stored e b) = b" for e b
    by (simp_all add: stored_def)
  have ro: "routesToStore_old plainPlatform ?rq (bucketEnv b None) ?ko"
    and rn: "routesToStore_new plainPlatform ?rq (bucketEnv b None) ?kn" for b
    by (simp_all add: run_simps)
  have co: "shouldTryGz ?ko = True"
    and cn: "(endsWith ?kn ''.prbm'' \<or> endsWith ?kn ''textures.json'' \<or> endsWith ?kn ''settings.json'') = True"
    by (simp_all add: shouldTryGz_iff endsWith_def)
  have j: "endsWith ?ko ''.json''" by (simp add: endsWith_def)
  have m: "getMimeType_old ?ko = ''application/json; charset=utf-8''"
          "getMimeType_new ?kn = ''application/json''"
    using j by (simp_all add: getMimeType_old_json getMimeType_new_def endsWith_def)
  have a: "?ko @ ''.gz'' = ''maps/world/textures.json.gz''" "?kn @ ''.gz'' = ''world/textures.json.gz''" by simp_all
  have b_op: "BUCKET (bucketEnv [''maps/world/textures.json'' \<mapsto> stored ''e1'' ''{}''] None) ?ko = Some (stored ''e1'' ''{}'') \<and>
       (shouldTryGz ?ko \<longrightarrow> BUCKET (bucketEnv [''maps/world/textures.json'' \<mapsto> stored ''e1'' ''{}''] None) (?ko @ ''.gz'') = None)"
    using co cn by (simp add: bucketEnv_def)
  note t_op = conditional_request_not_modified
    [where request = ?rq and object = "stored ''e1'' ''{}''" and hs = "[]" and pf = plainPlatform
       and env = "bucketEnv [''maps/world/textures.json'' \<mapsto> stored ''e1'' ''{}''] None" and key = ?ko,
     OF inm ne bare, THEN conjunct1, THEN mp, OF ro, THEN conjunct1, THEN mp, OF b_op,
     unfolded q co cn m a s if_True]
  have b_og: "BUCKET (bucketEnv [''maps/world/textures.json.gz'' \<mapsto> stored ''e1'' ''gz''] None) (?ko @ ''.gz'') = Some (stored ''e1'' ''gz'') \<and>
       (shouldTryGz ?ko \<or> (BUCKET (bucketEnv [''maps/world/textures.json.gz'' \<mapsto> stored ''e1'' ''gz''] None) ?ko = None \<and> \<not> endsWith ?ko ''.gz''))"
    using co cn by (simp add: bucketEnv_def)
  note t_og = conditional_request_not_modified
    [where request = ?rq and object = "stored ''e1'' ''gz''" and hs = "[]" and pf = plainPlatform
       and env = "bucketEnv [''maps/world/textures.json.gz'' \<mapsto> stored ''e1'' ''gz''] None" and key = ?ko,
     OF inm ne bare, THEN conjunct1, THEN mp, OF ro, THEN conjunct2, THEN mp, OF b_og,
     unfolded q co cn m a s if_True]
  have b_np: "BUCKET (bucketEnv [''world/textures.json'' \<mapsto> stored ''e1'' ''{}''] None) ?kn = Some (stored ''e1'' ''{}'') \<and>
       ((endsWith ?kn ''.prbm'' \<or> endsWith ?kn ''textures.json'' \<or> endsWith ?kn ''settings.json'') \<longrightarrow> BUCKET (bucketEnv [''world/textures.json'' \<mapsto> stored ''e1'' ''{}''] None) (?kn @ ''.gz'') = None)"
    using co cn by (simp add: bucketEnv_def)
  note t_np = conditional_request_not_modified
    [where request = ?rq and object = "stored ''e1'' ''{}''" and hs = "[]" and pf = plainPlatform
       and env = "bucketEnv [''world/textures.json'' \<mapsto> stored ''e1'' ''{}''] None" and key = ?kn,
     OF inm ne bare, THEN conjunct2, THEN mp, OF rn, THEN conjunct1, THEN mp, OF b_np,
     unfolded q co cn m a s if_True]
  have b_ng: "BUCKET (bucketEnv [''world/textures.json.gz'' \<mapsto> stored ''e1'' ''gz''] None) (?kn @ ''.gz'') = Some (stored ''e1'' ''gz'') \<and>
       ((endsWith ?kn ''.prbm'' \<or> endsWith ?kn ''textures.json'' \<or> endsWith ?kn ''settings.json'') \<or> (BUCKET (bucketEnv [''world/textures.json.gz'' \<mapsto> stored ''e1'' ''gz''] None) ?kn = None \<and> \<not> endsWith ?kn ''.gz''))"
    using co cn by (simp add: bucketEnv_def)
  note t_ng = conditional_request_not_modified
    [where request = ?rq and object = "stored ''e1'' ''gz''" and hs = "[]" and pf = plainPlatform
       and env = "bucketEnv [''world/textures.json.gz'' \<mapsto> stored ''e1'' ''gz''] None" and key = ?kn,
     OF inm ne bare, THEN conjunct2, THEN mp, OF rn, THEN conjunct2, THEN mp, OF b_ng,
     unfolded q co cn m a s if_True]
  from t_op t_og t_np t_ng show ?thesis by (intro conjI) (erule conjunct1 conjunct2)+
qed

subsection \<open>C8: The root path\<close>

text \<open>
  C8, as the claim states it, fails on the newer version: it serves only paths under
  \<^verbatim>\<open>maps/\<close> and answers the root with 404 without a lookup, whatever the bucket holds.
\<close>

theorem root_counterexample:
  "fetch_new plainPlatform (req ''GET'' ''/'' [])
     (bucketEnv [''index.html'' \<mapsto> stored ''e3'' ''<html>''] None) =
     ([], Inr \<lparr>status = 404, hdrs = [(''access-control-allow-origin'', ''*'')],
               body = BNull, encodeBody = Automatic\<rparr>)"
  by (simp add: fetch_new_def req_def plainPlatform_def stripLeadingSlash_def startsWith_def
        substring_def emptyResponse_def)

text \<open>
  C8, amended. For a \<^verbatim>\<open>GET\<close> or \<^verbatim>\<open>HEAD\<close> whose decoded path is empty or the root, the older
  version rewrites the path to \<^verbatim>\<open>index.html\<close> and looks that key up first: when the bucket
  holds it (and the request carries no validator equal to its ETag) the answer is status
  200 with the stored bytes and the HTML content type. The newer version answers the
  root with status 404 and the CORS header, without a lookup.
\<close>

theorem root_serves_index:
  assumes dec: "decodeURIComponent pf (pathname request) = Some decoded"
    and root: "decoded = [] \<or> decoded = ''/''"
    and meth: "readMethod request"
  shows "r2Key_old decoded = ''index.html''
       \<and> (BUCKET env ''index.html'' = Some object \<and> \<not> validatorMatches request object \<longrightarrow>
            fetch_old pf request env =
              ([BucketGet ''index.html''],
               Inr \<lparr>status = 200,
                    hdrs = [(''content-type'', ''text/html; charset=utf-8''),
                            (''etag'', httpEtag object),
                            (''cache-control'', ''public, max-age=86400''),
                            (''access-control-allow-origin'', ''*'')],
                    body = BStream (obody object), encodeBody = Automatic\<rparr>))
       \<and> (pathname request \<noteq> ''/debug/live'' \<and> pathname request \<noteq> ''/debug'' \<longrightarrow>
            fetch_new pf request env =
              ([], Inr \<lparr>status = 404, hdrs = [(''access-control-allow-origin'', ''*'')],
                        body = BNull, encodeBody = Automatic\<rparr>))"
proof (intro conjI impI)
  show k: "r2Key_old decoded = ''index.html''" using root by (rule r2Key_old_root)
  have r: "routesToStore_old pf request env ''index.html''"
    using dec k meth index_html_facts(2) by (simp add: routesToStore_old_def)
  {
    assume "BUCKET env ''index.html'' = Some object \<and> \<not> validatorMatches request object"
    then have b: "BUCKET env ''index.html'' = Some object"
      and v: "\<not> validatorMatches request object" by simp_all
    show "fetch_old pf request env =
            ([BucketGet ''index.html''],
             Inr \<lparr>status = 200,
                  hdrs = [(''content-type'', ''text/html; charset=utf-8''),
                          (''etag'', httpEtag object),
                          (''cache-control'', ''public, max-age=86400''),
                          (''access-control-allow-origin'', ''*'')],
                  body = BStream (obody object), encodeBody = Automatic\<rparr>)"
      unfolding fetch_old_store [OF r] serve_old_exact_hit [OF index_html_facts(1) b]
        index_html_facts(3)
      using v by (simp add: r2Response_old_eq)
  }
  {
    assume "pathname request \<noteq> ''/debug/live'' \<and> pathname request \<noteq> ''/debug''"
    then show "fetch_new pf request env =
                 ([], Inr \<lparr>status = 404, hdrs = [(''access-control-allow-origin'', ''*'')],
                           body = BNull, encodeBody = Automatic\<rparr>)"
      using dec root_not_maps [OF root] read_method_cases [OF meth]
      by (auto simp: fetch_new_def emptyResponse_def)
  }
qed

theorem root_serves_index_witness:
  "r2Key_old ''/'' = ''index.html''
   \<and> fetch_old plainPlatform (req ''GET'' ''/'' [])
       (bucketEnv [''index.html'' \<mapsto> stored ''e3'' ''<html>''] None) =
       ([BucketGet ''index.html''],
        Inr \<lparr>status = 200,
             hdrs = [(''content-type'', ''text/html; charset=utf-8''),
                     (''etag'', ''e3''),
                     (''cache-control'', ''public, max-age=86400''),
                     (''access-control-allow-origin'', ''*'')],
             body = BStream ''<html>'', encodeBody = Automatic\<rparr>)
   \<and> fetch_new plainPlatform (req ''GET'' ''/'' [])
       (bucketEnv [''index.html'' \<mapsto> stored ''e3'' ''<html>''] None) =
       ([], Inr \<lparr>status = 404, hdrs = [(''access-control-allow-origin'', ''*'')],
                 body = BNull, encodeBody = Automatic\<rparr>)"
proof -
  let ?rq = "req ''GET'' ''/'' []"
  let ?e = "bucketEnv [''index.html'' \<mapsto> stored ''e3'' ''<html>''] None"
  have d: "decodeURIComponent plainPlatform (pathname ?rq) = Some ''/''"
    by (simp add: plainPlatform_def req_def)
  have m: "readMethod ?rq" by (simp add: readMethod_def req_def)
  have b: "BUCKET ?e ''index.html'' = Some (stored ''e3'' ''<html>'')
           \<and> \<not> validatorMatches ?rq (stored ''e3'' ''<html>'')"
    by (simp add: bucketEnv_def)
  have p: "pathname ?rq \<noteq> ''/debug/live'' \<and> pathname ?rq \<noteq> ''/debug''"
    by (simp add: req_def)
  note th = root_serves_index [OF d _ m, of ?e "stored ''e3'' ''<html>''"]
  have th': "r2Key_old ''/'' = ''index.html''
       \<and> (BUCKET ?e ''index.html'' = Some (stored ''e3'' ''<html>'')
            \<and> \<not> validatorMatches ?rq (stored ''e3'' ''<html>'') \<longrightarrow>
            fetch_old plainPlatform ?rq ?e =
              ([BucketGet ''index.html''],
               Inr \<lparr>status = 200,
                    hdrs = [(''content-type'', ''text/html; charset=utf-8''),
                            (''etag'', httpEtag (stored ''e3'' ''<html>'')),
                            (''cache-control'', ''public, max-age=86400''),
                            (''access-control-allow-origin'', ''*'')],
                    body = BStream (obody (stored ''e3'' ''<html>'')),
                    encodeBody = Automatic\<rparr>))
       \<and> (pathname ?rq \<noteq> ''/debug/live'' \<and> pathname ?rq \<noteq> ''/debug'' \<longrightarrow>
            fetch_new plainPlatform ?rq ?e =
              ([], Inr \<lparr>status = 404, hdrs = [(''access-control-allow-origin'', ''*'')],
                        body = BNull, encodeBody = Automatic\<rparr>))"
    by (rule th) simp
  have s: "httpEtag (stored ''e3'' ''<html>'') = ''e3''" "obody (stored ''e3'' ''<html>'') = ''<html>''"
    by (simp_all add: stored_def)
  from th' [THEN conjunct1] th' [THEN conjunct2, THEN conjunct1, THEN mp, OF b, unfolded s]
    th' [THEN conjunct2, THEN conjunct2, THEN mp, OF p]
  show ?thesis by (intro conjI)
qed

subsection \<open>C9: Preflight requests\<close>

text \<open>
  C9, as the claim states it, fails on the newer version: the debug endpoints are tested
  before the method, so an \<^verbatim>\<open>OPTIONS /debug\<close> lists the bucket.
\<close>

theorem preflight_counterexample:
  "fetch_new plainPlatform (req ''OPTIONS'' ''/debug'' []) (bucketEnv Map.empty None) =
     ([BucketList None (Some 50)],
      Inr \<lparr>status = 200, hdrs = [(''content-type'', ''application/json'')],
           body = BJson (BucketListing False 0 []), encodeBody = Automatic\<rparr>)"
  by (simp add: fetch_new_def debugList_def req_def plainPlatform_def bucketEnv_def
        newResponse_def jsonHeaders_def headers_of_def headers_set_def headers_get_def)

text \<open>
  C9, amended. An \<^verbatim>\<open>OPTIONS\<close> request is answered before the method is validated, with
  status 200, no body and the fixed allow-origin, allow-methods, allow-headers and max-age
  headers, and with no access to the bucket and no network call: in the newer version on
  every path but the two debug endpoints, in the older version on every path that decodes.
\<close>

theorem preflight_short_circuit:
  assumes "rmethod request = ''OPTIONS''"
  shows "(decodeURIComponent pf (pathname request) \<noteq> None \<longrightarrow>
            fetch_old pf request env =
              ([], Inr \<lparr>status = 200,
                        hdrs = [(''access-control-allow-origin'', ''*''),
                                (''access-control-allow-methods'', ''GET, HEAD, OPTIONS''),
                                (''access-control-allow-headers'', ''*''),
                                (''access-control-max-age'', ''86400'')],
                        body = BNull, encodeBody = Automatic\<rparr>))
       \<and> (pathname request \<noteq> ''/debug/live'' \<and> pathname request \<noteq> ''/debug'' \<longrightarrow>
            fetch_new pf request env =
              ([], Inr \<lparr>status = 200,
                        hdrs = [(''access-control-allow-origin'', ''*''),
                                (''access-control-allow-methods'', ''GET, HEAD, OPTIONS''),
                                (''access-control-allow-headers'', ''*''),
                                (''access-control-max-age'', ''86400'')],
                        body = BNull, encodeBody = Automatic\<rparr>))"
  using assms by (auto simp: fetch_old_def fetch_new_def preflightResponse_eq Let_def)

theorem preflight_short_circuit_witness:
  "fetch_old plainPlatform (req ''OPTIONS'' ''/anything'' []) (bucketEnv Map.empty None) =
     ([], Inr \<lparr>status = 200,
               hdrs = [(''access-control-allow-origin'', ''*''),
                       (''access-control-allow-methods'', ''GET, HEAD, OPTIONS''),
                       (''access-control-allow-headers'', ''*''),
                       (''access-control-max-age'', ''86400'')],
               body = BNull, encodeBody = Automatic\<rparr>)
   \<and> fetch_new plainPlatform (req ''OPTIONS'' ''/anything'' []) (bucketEnv Map.empty None) =
     ([], Inr \<lparr>status = 200,
               hdrs = [(''access-control-allow-origin'', ''*''),
                       (''access-control-allow-methods'', ''GET, HEAD, OPTIONS''),
                       (''access-control-allow-headers'', ''*''),
                       (''access-control-max-age'', ''86400'')],
               body = BNull, encodeBody = Automatic\<rparr>)"
proof -
  let ?rq = "req ''OPTIONS'' ''/anything'' []"
  have m: "rmethod ?rq = ''OPTIONS''" by (simp add: req_def)
  have d: "decodeURIComponent plainPlatform (pathname ?rq) \<noteq> None"
    by (simp add: plainPlatform_def)
  have p: "pathname ?rq \<noteq> ''/debug/live'' \<and> pathname ?rq \<noteq> ''/debug''"
    by (simp add: req_def)
  note th = preflight_short_circuit [OF m, of plainPlatform "bucketEnv Map.empty None"]
  from th [THEN conjunct1, THEN mp, OF d] th [THEN conjunct2, THEN mp, OF p]
  show ?thesis by (rule conjI)
qed

subsection \<open>C10: A key that already ends in .gz\<close>

text \<open>
  C10. A key that already ends in \<^verbatim>\<open>.gz\<close> and is in the bucket: a \<^verbatim>\<open>GET\<close> or \<^verbatim>\<open>HEAD\<close> that
  reaches the bucket with it, and carries no validator equal to the object's ETag, makes
  one lookup, of that key, and is answered with status 200, the stored bytes and no
  \<^verbatim>\<open>Content-Encoding\<close> header. In the newer version the content type of a key that ends in
  \<^verbatim>\<open>.json.gz\<close> is \<^verbatim>\<open>application/json\<close>. Both versions.
\<close>

theorem gz_key_served_as_stored:
  assumes gz: "endsWith key ''.gz''"
    and hit: "BUCKET env key = Some object"
    and fresh: "\<not> validatorMatches request object"
  shows "(routesToStore_old pf request env key \<longrightarrow>
            fetch_old pf request env =
              ([BucketGet key],
               Inr \<lparr>status = 200,
                    hdrs = [(''content-type'', ''application/octet-stream''),
                            (''etag'', httpEtag object),
                            (''cache-control'', ''public, max-age=86400''),
                            (''access-control-allow-origin'', ''*'')],
                    body = BStream (obody object), encodeBody = Automatic\<rparr>))
       \<and> (routesToStore_new pf request env key \<longrightarrow>
            fetch_new pf request env =
              ([BucketGet key],
               Inr \<lparr>status = 200,
                    hdrs = [(''content-type'', getMimeType_new key),
                            (''etag'', httpEtag object),
                            (''cache-control'', ''public, max-age=86400''),
                            (''access-control-allow-origin'', ''*'')],
                    body = BStream (obody object), encodeBody = Automatic\<rparr>) \<and>
            (endsWith key ''.json.gz'' \<longrightarrow> getMimeType_new key = ''application/json''))"
proof (intro conjI impI)
  assume r: "routesToStore_old pf request env key"
  show "fetch_old pf request env =
          ([BucketGet key],
           Inr \<lparr>status = 200,
                hdrs = [(''content-type'', ''application/octet-stream''),
                        (''etag'', httpEtag object),
                        (''cache-control'', ''public, max-age=86400''),
                        (''access-control-allow-origin'', ''*'')],
                body = BStream (obody object), encodeBody = Automatic\<rparr>)"
    unfolding fetch_old_store [OF r] serve_old_exact_hit [OF gz_key_not_first(1) [OF gz] hit]
      getMimeType_old_gz [OF gz]
    using fresh by (simp add: r2Response_old_eq)
next
  assume r: "routesToStore_new pf request env key"
  show "fetch_new pf request env =
          ([BucketGet key],
           Inr \<lparr>status = 200,
                hdrs = [(''content-type'', getMimeType_new key),
                        (''etag'', httpEtag object),
                        (''cache-control'', ''public, max-age=86400''),
                        (''access-control-allow-origin'', ''*'')],
                body = BStream (obody object), encodeBody = Automatic\<rparr>)"
    unfolding fetch_new_store [OF r] serve_new_exact_hit [OF gz_key_not_first(2) [OF gz] hit]
    using fresh by (simp add: r2Response_new_eq)
next
  assume "endsWith key ''.json.gz''"
  then show "getMimeType_new key = ''application/json''" by (rule getMimeType_new_json_gz)
qed

theorem gz_key_served_as_stored_witness:
  "fetch_old plainPlatform (req ''GET'' ''/maps/world/textures.json.gz'' [])
     (bucketEnv [''maps/world/textures.json.gz'' \<mapsto> stored ''e4'' ''gzip bytes''] None) =
     ([BucketGet ''maps/world/textures.json.gz''],
      Inr \<lparr>status = 200,
           hdrs = [(''content-type'', ''application/octet-stream''),
                   (''etag'', ''e4''),
                   (''cache-control'', ''public, max-age=86400''),
                   (''access-control-allow-origin'', ''*'')],
           body = BStream ''gzip bytes'', encodeBody = Automatic\<rparr>)
   \<and> fetch_new plainPlatform (req ''GET'' ''/maps/world/textures.json.gz'' [])
     (bucketEnv [''world/textures.json.gz'' \<mapsto> stored ''e4'' ''gzip bytes''] None) =
     ([BucketGet ''world/textures.json.gz''],
      Inr \<lparr>status = 200,
           hdrs = [(''content-type'', ''application/json''),
                   (''etag'', ''e4''),
                   (''cache-control'', ''public, max-age=86400''),
                   (''access-control-allow-origin'', ''*'')],
           body = BStream ''gzip bytes'', encodeBody = Automatic\<rparr>)"
proof -
  let ?rq = "req ''GET'' ''/maps/world/textures.json.gz'' []"
  let ?ob = "stored ''e4'' ''gzip bytes''"
  let ?eo = "bucketEnv [''maps/world/textures.json.gz'' \<mapsto> ?ob] None"
  let ?en = "bucketEnv [''world/textures.json.gz'' \<mapsto> ?ob] None"
  have ro: "routesToStore_old plainPlatform ?rq ?eo ''maps/world/textures.json.gz''"
    and rn: "routesToStore_new plainPlatform ?rq ?en ''world/textures.json.gz''"
    by (simp_all add: run_simps)
  have g: "endsWith ''maps/world/textures.json.gz'' ''.gz''"
          "endsWith ''world/textures.json.gz'' ''.gz''"
          "endsWith ''world/textures.json.gz'' ''.json.gz''"
    by (simp_all add: endsWith_def)
  have b: "BUCKET ?eo ''maps/world/textures.json.gz'' = Some ?ob"
          "BUCKET ?en ''world/textures.json.gz'' = Some ?ob"
    by (simp_all add: bucketEnv_def)
  have v: "\<not> validatorMatches ?rq ?ob" by simp
  have s: "httpEtag ?ob = ''e4''" "obody ?ob = ''gzip bytes''" by (simp_all add: stored_def)
  note o = gz_key_served_as_stored [OF g(1) b(1) v, of plainPlatform, THEN conjunct1, THEN mp,
                                    OF ro, unfolded s]
  note n = gz_key_served_as_stored [OF g(2) b(2) v, of plainPlatform, THEN conjunct2, THEN mp,
                                    OF rn, unfolded s]
  from n have m: "getMimeType_new ''world/textures.json.gz'' = ''application/json''"
    using g(3) by blast
  from o n [THEN conjunct1, unfolded m] show ?thesis by (rule conjI)
qed

end
